theory Spec2Isabelle
  imports Complex_Main "HOL-Library.Multiset"
begin

section \<open>JavaScript numbers\<close>

text \<open>
  The engines compute with JavaScript numbers. The model takes the finite numbers to be
  the reals, so rounding error, overflow and the sign of zero are outside it; the last
  section models the rounding of doubles for the debt engine, where a claim turns on it. Operations
  that can leave the finite numbers on finite arguments (a division by a value that may be
  zero, \<open>Math.pow\<close>, a read past the end of an array) return a \<open>jsnum\<close>, which keeps
  \<open>Infinity\<close>, \<open>-Infinity\<close> and \<open>NaN\<close> apart from the finite numbers.
\<close>

datatype jsnum = Num real | PosInf | NegInf | NaN

text \<open>\<open>Math.round\<close> on a finite number: the nearest integer, halves going up.\<close>

definition Math_round :: "real \<Rightarrow> int" where
  "Math_round x = \<lfloor>x + 1 / 2\<rfloor>"

text \<open>\<open>a / b\<close> on finite numbers: a zero divisor gives an infinity or \<open>NaN\<close>.\<close>

definition js_div :: "real \<Rightarrow> real \<Rightarrow> jsnum" where
  "js_div a b =
     (if b \<noteq> 0 then Num (a / b)
      else if 0 < a then PosInf
      else if a < 0 then NegInf
      else NaN)"

text \<open>The arithmetic of IEEE 754 on the extended values.\<close>

fun js_neg :: "jsnum \<Rightarrow> jsnum" where
  "js_neg (Num x) = Num (- x)"
| "js_neg PosInf = NegInf"
| "js_neg NegInf = PosInf"
| "js_neg NaN = NaN"

fun js_add :: "jsnum \<Rightarrow> jsnum \<Rightarrow> jsnum" where
  "js_add (Num a) (Num b) = Num (a + b)"
| "js_add NaN _ = NaN"
| "js_add _ NaN = NaN"
| "js_add PosInf NegInf = NaN"
| "js_add NegInf PosInf = NaN"
| "js_add PosInf _ = PosInf"
| "js_add _ PosInf = PosInf"
| "js_add NegInf _ = NegInf"
| "js_add _ NegInf = NegInf"

definition js_sub :: "jsnum \<Rightarrow> jsnum \<Rightarrow> jsnum" where
  "js_sub a b = js_add a (js_neg b)"

fun js_sgn :: "jsnum \<Rightarrow> real" where
  "js_sgn (Num x) = sgn x"
| "js_sgn PosInf = 1"
| "js_sgn NegInf = - 1"
| "js_sgn NaN = 0"

definition inf_of_sign :: "real \<Rightarrow> jsnum" where
  "inf_of_sign s = (if 0 < s then PosInf else if s < 0 then NegInf else NaN)"

fun js_mul :: "jsnum \<Rightarrow> jsnum \<Rightarrow> jsnum" where
  "js_mul NaN _ = NaN"
| "js_mul _ NaN = NaN"
| "js_mul (Num a) (Num b) = Num (a * b)"
| "js_mul a b = inf_of_sign (js_sgn a * js_sgn b)"

fun js_divide :: "jsnum \<Rightarrow> jsnum \<Rightarrow> jsnum" where
  "js_divide NaN _ = NaN"
| "js_divide _ NaN = NaN"
| "js_divide (Num a) (Num b) = js_div a b"
| "js_divide (Num a) _ = Num 0"
| "js_divide a (Num b) = inf_of_sign (js_sgn a * (if b < 0 then - 1 else 1))"
| "js_divide _ _ = NaN"

fun js_round :: "jsnum \<Rightarrow> jsnum" where
  "js_round (Num x) = Num (real_of_int (Math_round x))"
| "js_round x = x"

text \<open>\<open>Math.max(0, x)\<close>.\<close>

fun js_max0 :: "jsnum \<Rightarrow> jsnum" where
  "js_max0 (Num x) = Num (max 0 x)"
| "js_max0 PosInf = PosInf"
| "js_max0 NegInf = Num 0"
| "js_max0 NaN = NaN"

text \<open>\<open>a <= b\<close>: false as soon as one side is \<open>NaN\<close>.\<close>

fun js_le :: "jsnum \<Rightarrow> jsnum \<Rightarrow> bool" where
  "js_le NaN _ = False"
| "js_le _ NaN = False"
| "js_le (Num a) (Num b) = (a \<le> b)"
| "js_le NegInf _ = True"
| "js_le _ PosInf = True"
| "js_le _ _ = False"

text \<open>
  \<open>Math.pow(b, e)\<close> on finite arguments: a zero exponent gives 1; a positive base the real
  power; a zero base 0 or \<open>Infinity\<close>; a negative base the integer power, and \<open>NaN\<close> when the
  exponent is not an integer.
\<close>

definition Math_pow :: "real \<Rightarrow> real \<Rightarrow> jsnum" where
  "Math_pow b e =
     (if e = 0 then Num 1
      else if 0 < b then Num (b powr e)
      else if b = 0 then (if 0 < e then Num 0 else PosInf)
      else if e \<in> \<int> then Num (b powi \<lfloor>e\<rfloor>)
      else NaN)"

section \<open>Tax calculator\<close>

text \<open>
  A slab is \<open>{ min, max, rate }\<close>; the top slab of each regime has \<open>max: Infinity\<close>.
\<close>

datatype bound = Fin real | Infinity

record slab =
  slab_min :: real
  slab_max :: bound
  slab_rate :: real

record rebate_cfg =
  limit :: real
  maxRebate :: real

record slab_config =
  slabs :: "slab list"
  standardDeduction :: real
  rebate87A :: rebate_cfg

definition new_regime :: slab_config where
  "new_regime = \<lparr>
     slabs = [
       \<lparr>slab_min = 0, slab_max = Fin 400000, slab_rate = 0\<rparr>,
       \<lparr>slab_min = 400000, slab_max = Fin 800000, slab_rate = 5\<rparr>,
       \<lparr>slab_min = 800000, slab_max = Fin 1200000, slab_rate = 10\<rparr>,
       \<lparr>slab_min = 1200000, slab_max = Fin 1600000, slab_rate = 15\<rparr>,
       \<lparr>slab_min = 1600000, slab_max = Fin 2000000, slab_rate = 20\<rparr>,
       \<lparr>slab_min = 2000000, slab_max = Fin 2400000, slab_rate = 25\<rparr>,
       \<lparr>slab_min = 2400000, slab_max = Infinity, slab_rate = 30\<rparr>],
     standardDeduction = 75000,
     rebate87A = \<lparr>limit = 700000, maxRebate = 25000\<rparr>\<rparr>"

definition old_regime :: slab_config where
  "old_regime = \<lparr>
     slabs = [
       \<lparr>slab_min = 0, slab_max = Fin 250000, slab_rate = 0\<rparr>,
       \<lparr>slab_min = 250000, slab_max = Fin 500000, slab_rate = 5\<rparr>,
       \<lparr>slab_min = 500000, slab_max = Fin 1000000, slab_rate = 20\<rparr>,
       \<lparr>slab_min = 1000000, slab_max = Infinity, slab_rate = 30\<rparr>],
     standardDeduction = 50000,
     rebate87A = \<lparr>limit = 500000, maxRebate = 12500\<rparr>\<rparr>"

text \<open>\<open>this.taxSlabs[regime]\<close>: any other key reads \<open>undefined\<close>.\<close>

definition taxSlabs :: "string \<Rightarrow> slab_config option" where
  "taxSlabs r =
     (if r = ''new'' then Some new_regime
      else if r = ''old'' then Some old_regime
      else None)"

definition section80CLimit :: real where "section80CLimit = 150000"
definition section80D_self :: real where "section80D_self = 25000"
definition section80D_parents :: real where "section80D_parents = 25000"
definition ltcgExemption :: real where "ltcgExemption = 125000"
definition ltcgRate :: real where "ltcgRate = 12.5"
definition stcgRate :: real where "stcgRate = 20"
definition homeLoan_interestUnder24b :: real where "homeLoan_interestUnder24b = 200000"

text \<open>
  The parameter object of \<open>calculateTax\<close>, every field given: a caller that leaves a field
  out gets the default of the destructuring, 0 for the amounts and \<open>'new'\<close> for the regime.
\<close>

record tax_params =
  grossIncome :: real
  regime :: string
  deductions80C :: real
  deductions80D :: real
  deductions80CCD :: real
  homeLoanInterest :: real
  hra :: real
  ltcg :: real
  stcg :: real

text \<open>
  The \<open>breakdown\<close> object. A key that the run never assigns is \<open>None\<close>.
\<close>

record tax_breakdown =
  bd_grossIncome :: real
  bd_standardDeduction :: real
  bd_section80C :: "real option"
  bd_section80D :: "real option"
  bd_section80CCD :: "real option"
  bd_homeLoanInterest :: "real option"
  bd_hra :: "real option"
  bd_taxableIncome :: real
  bd_rebate87A :: "real option"

record tax_result =
  res_regime :: string
  breakdown :: tax_breakdown
  baseTax :: int
  surcharge :: int
  cess :: int
  capitalGainsTax :: int
  totalTax :: int
  effectiveRate :: jsnum
  monthlyTax :: int

datatype js_error = TypeError

text \<open>
  Taxable income: the standard deduction, then, under the old regime only, the capped
  deductions and the HRA exemption, then the floor at zero.
\<close>

definition taxableIncomeOf :: "slab_config \<Rightarrow> tax_params \<Rightarrow> real" where
  "taxableIncomeOf cfg p =
     (let t0 = grossIncome p - standardDeduction cfg;
          t1 = (if regime p = ''old'' then
                  (let actual80C = min (deductions80C p) section80CLimit;
                       actual80D = min (deductions80D p) (section80D_self + section80D_parents);
                       actual80CCD = min (deductions80CCD p) 50000;
                       actualHomeLoan = min (homeLoanInterest p) homeLoan_interestUnder24b;
                       t = t0 - actual80C - actual80D - actual80CCD - actualHomeLoan
                   in if 0 < hra p then t - hra p else t)
                else t0)
      in max 0 t1)"

text \<open>
  The loop over the slabs: a slab whose \<open>min\<close> lies below the taxable income adds
  \<open>Math.min(taxableIncome - min, max - min) * (rate / 100)\<close>; with \<open>max = Infinity\<close>
  the minimum is its first argument.
\<close>

definition taxableInSlab :: "slab \<Rightarrow> real \<Rightarrow> real" where
  "taxableInSlab s t =
     (case slab_max s of
        Fin m \<Rightarrow> min (t - slab_min s) (m - slab_min s)
      | Infinity \<Rightarrow> t - slab_min s)"

fun slabTax :: "slab list \<Rightarrow> real \<Rightarrow> real \<Rightarrow> real" where
  "slabTax [] t acc = acc"
| "slabTax (s # ss) t acc =
     slabTax ss t (if t > slab_min s then acc + taxableInSlab s t * (slab_rate s / 100) else acc)"

text \<open>The rebate under section 87A: the amount taken off, if the branch is entered.\<close>

definition rebateOf :: "slab_config \<Rightarrow> real \<Rightarrow> real \<Rightarrow> real option" where
  "rebateOf cfg t b =
     (if t \<le> limit (rebate87A cfg) then Some (min b (maxRebate (rebate87A cfg))) else None)"

definition surchargeOf :: "real \<Rightarrow> real \<Rightarrow> real" where
  "surchargeOf t b =
     (if t > 5000000 \<and> t \<le> 10000000 then b * 0.10
      else if t > 10000000 \<and> t \<le> 20000000 then b * 0.15
      else if t > 20000000 \<and> t \<le> 50000000 then b * 0.25
      else if t > 50000000 then b * 0.37
      else 0)"

definition capitalGainsOf :: "tax_params \<Rightarrow> real" where
  "capitalGainsOf p =
     (let c1 = (if 0 < ltcg p then max 0 (ltcg p - ltcgExemption) * (ltcgRate / 100) else 0);
          c2 = (if 0 < stcg p then c1 + stcg p * (stcgRate / 100) else c1)
      in c2)"

text \<open>The total before rounding: base tax after rebate, surcharge, cess, capital gains.\<close>

definition totalTaxOf :: "slab_config \<Rightarrow> tax_params \<Rightarrow> real" where
  "totalTaxOf cfg p =
     (let t = taxableIncomeOf cfg p;
          b0 = slabTax (slabs cfg) t 0;
          b = (case rebateOf cfg t b0 of Some r \<Rightarrow> b0 - r | None \<Rightarrow> b0);
          s = surchargeOf t b;
          c = (b + s) * 0.04
      in b + s + c + capitalGainsOf p)"

definition calculateTax :: "tax_params \<Rightarrow> js_error + tax_result" where
  "calculateTax p =
     (case taxSlabs (regime p) of
        None \<Rightarrow> Inl TypeError
      | Some cfg \<Rightarrow>
          (let old = (regime p = ''old'');
               t = taxableIncomeOf cfg p;
               b0 = slabTax (slabs cfg) t 0;
               rb = rebateOf cfg t b0;
               b = (case rb of Some r \<Rightarrow> b0 - r | None \<Rightarrow> b0);
               s = surchargeOf t b;
               c = (b + s) * 0.04;
               cg = capitalGainsOf p;
               total = b + s + c + cg
           in Inr \<lparr>
                res_regime = regime p,
                breakdown = \<lparr>
                  bd_grossIncome = grossIncome p,
                  bd_standardDeduction = standardDeduction cfg,
                  bd_section80C =
                    (if old then Some (min (deductions80C p) section80CLimit) else None),
                  bd_section80D =
                    (if old then Some (min (deductions80D p) (section80D_self + section80D_parents))
                     else None),
                  bd_section80CCD = (if old then Some (min (deductions80CCD p) 50000) else None),
                  bd_homeLoanInterest =
                    (if old then Some (min (homeLoanInterest p) homeLoan_interestUnder24b)
                     else None),
                  bd_hra = (if old \<and> 0 < hra p then Some (hra p) else None),
                  bd_taxableIncome = t,
                  bd_rebate87A = rb\<rparr>,
                baseTax = Math_round b,
                surcharge = Math_round s,
                cess = Math_round c,
                capitalGainsTax = Math_round cg,
                totalTax = Math_round total,
                effectiveRate =
                  (if grossIncome p > 0
                   then js_divide
                          (js_round (js_mul (js_div total (grossIncome p)) (Num 10000)))
                          (Num 100)
                   else Num 0),
                monthlyTax = Math_round (total / 12)\<rparr>))"

text \<open>The call of the concrete scenario: no deduction inputs, every default left at zero.\<close>

definition plain_params :: "real \<Rightarrow> string \<Rightarrow> tax_params" where
  "plain_params g r = \<lparr>grossIncome = g, regime = r, deductions80C = 0, deductions80D = 0,
     deductions80CCD = 0, homeLoanInterest = 0, hra = 0, ltcg = 0, stcg = 0\<rparr>"

text \<open>
  \<open>compareRegimes\<close> runs \<open>calculateTax\<close> with the regime overridden, once per regime.
  The \<open>recommendation\<close> sentence is kept as its two variants and the amount it prints.
\<close>

datatype recommendation = NewRegimeSaves int | OldRegimeSaves int

record comparison =
  cmp_old :: tax_result
  cmp_new :: tax_result
  savings :: int
  recommendedRegime :: string
  recommendation :: recommendation

definition compareRegimes :: "tax_params \<Rightarrow> js_error + comparison" where
  "compareRegimes p =
     (case calculateTax (p\<lparr>regime := ''old''\<rparr>) of
        Inl e \<Rightarrow> Inl e
      | Inr oldRegime \<Rightarrow>
          (case calculateTax (p\<lparr>regime := ''new''\<rparr>) of
             Inl e \<Rightarrow> Inl e
           | Inr newRegime \<Rightarrow>
               (let sv = totalTax oldRegime - totalTax newRegime
                in Inr \<lparr>
                     cmp_old = oldRegime,
                     cmp_new = newRegime,
                     savings = \<bar>sv\<bar>,
                     recommendedRegime = (if sv > 0 then ''new'' else ''old''),
                     recommendation =
                       (if sv > 0 then NewRegimeSaves \<bar>sv\<bar> else OldRegimeSaves \<bar>sv\<bar>)\<rparr>)))"

subsection \<open>Well-formed slab tables\<close>

text \<open>
  What the monotonicity argument needs of a configuration: no negative rate, no slab whose
  upper bound lies below its lower bound, no negative rebate cap.
\<close>

definition slab_ok :: "slab \<Rightarrow> bool" where
  "slab_ok s =
     (0 \<le> slab_rate s \<and> (case slab_max s of Fin m \<Rightarrow> slab_min s \<le> m | Infinity \<Rightarrow> True))"

definition config_ok :: "slab_config \<Rightarrow> bool" where
  "config_ok cfg = (list_all slab_ok (slabs cfg) \<and> 0 \<le> maxRebate (rebate87A cfg))"

definition afterRebate :: "slab_config \<Rightarrow> real \<Rightarrow> real \<Rightarrow> real" where
  "afterRebate cfg t b0 = (case rebateOf cfg t b0 of Some r \<Rightarrow> b0 - r | None \<Rightarrow> b0)"

section \<open>Inflation engine\<close>

text \<open>
  \<open>futureValue(presentValue, years, inflationRate)\<close> and its inverse. The optional third
  argument defaults to \<open>defaultRate\<close>; the model takes it as given.
\<close>

definition defaultRate :: real where "defaultRate = 6"

definition futureValue :: "real \<Rightarrow> real \<Rightarrow> real \<Rightarrow> jsnum" where
  "futureValue pv yrs inflationRate =
     (let rate = inflationRate / 100
      in js_mul (Num pv) (Math_pow (1 + rate) yrs))"

definition presentValue :: "real \<Rightarrow> real \<Rightarrow> real \<Rightarrow> jsnum" where
  "presentValue fv yrs inflationRate =
     (let rate = inflationRate / 100
      in js_divide (Num fv) (Math_pow (1 + rate) yrs))"

section \<open>Goal solver\<close>

text \<open>The parameter objects of the goal solver, every field given.\<close>

record target_params =
  tp_currentAmount :: real
  tp_monthlyContribution :: real
  tp_expectedReturn :: real
  tp_targetAmount :: real

text \<open>
  The loop of \<open>calculateYearsToTarget\<close>: it runs while the value is below the target and
  fewer than 600 months have passed, and hands back the value and the month count it
  stopped at.
\<close>

function accumulate :: "real \<Rightarrow> real \<Rightarrow> real \<Rightarrow> real \<Rightarrow> nat \<Rightarrow> real \<times> nat" where
  "accumulate monthlyRate contribution target val months =
     (if val < target \<and> months < 600
      then accumulate monthlyRate contribution target
             (val * (1 + monthlyRate) + contribution) (months + 1)
      else (val, months))"
  by pat_completeness auto
termination
  by (relation "measure (\<lambda>(r, c, t, v, m). 600 - m)") auto

text \<open>\<open>None\<close> is the \<open>null\<close> the function returns once the month count is 600.\<close>

definition calculateYearsToTarget :: "target_params \<Rightarrow> nat option" where
  "calculateYearsToTarget p =
     (let monthlyRate = (tp_expectedReturn p / 100) / 12;
          months = snd (accumulate monthlyRate (tp_monthlyContribution p) (tp_targetAmount p)
                          (tp_currentAmount p) 0)
      in if months < 600 then Some months else None)"

record sip_params =
  sp_currentAmount :: real
  sp_expectedReturn :: real
  sp_targetAmount :: real
  sp_years :: real

definition calculateRequiredSIP :: "sip_params \<Rightarrow> jsnum" where
  "calculateRequiredSIP p =
     (let monthlyRate = (sp_expectedReturn p / 100) / 12;
          months = sp_years p * 12;
          fvCurrent = js_mul (Num (sp_currentAmount p)) (Math_pow (1 + monthlyRate) months);
          remaining = js_sub (Num (sp_targetAmount p)) fvCurrent
      in if js_le remaining (Num 0) then Num 0
         else (let sip = js_divide (js_mul remaining (Num monthlyRate))
                           (js_sub (Math_pow (1 + monthlyRate) months) (Num 1))
               in js_max0 (js_round sip)))"

text \<open>
  The sibling closed form in the state store, \<open>calculateEMI\<close>, which tests for the zero
  rate before it divides.
\<close>

definition calculateEMI :: "real \<Rightarrow> real \<Rightarrow> real \<Rightarrow> jsnum" where
  "calculateEMI principalAmt annualRate tenureYears =
     (if principalAmt \<le> 0 \<or> tenureYears \<le> 0 then Num 0
      else (let monthlyRate = annualRate / 100 / 12;
                months = tenureYears * 12
            in if monthlyRate = 0 then js_round (js_div principalAmt months)
               else js_round
                      (js_divide
                         (js_mul (js_mul (Num principalAmt) (Num monthlyRate))
                            (Math_pow (1 + monthlyRate) months))
                         (js_sub (Math_pow (1 + monthlyRate) months) (Num 1)))))"

text \<open>The value after \<open>n\<close> months of accumulation, for stating what the loop finds.\<close>

fun valueAfter :: "real \<Rightarrow> real \<Rightarrow> real \<Rightarrow> nat \<Rightarrow> real" where
  "valueAfter monthlyRate contribution v0 0 = v0"
| "valueAfter monthlyRate contribution v0 (Suc n) =
     valueAfter monthlyRate contribution v0 n * (1 + monthlyRate) + contribution"

section \<open>Monte Carlo projection\<close>

text \<open>
  The parameter object of \<open>simulateGoal\<close>, every field given. \<open>iterations\<close> counts the
  trials and is a natural number.
\<close>

record goal_params =
  gp_currentAmount :: real
  gp_monthlyContribution :: real
  gp_expectedReturn :: real
  gp_volatility :: real
  gp_years :: real
  gp_targetAmount :: real
  gp_iterations :: nat

text \<open>
  \<open>generateMonthlyReturn\<close> turns one standard normal variate (from \<open>jStat\<close> or from the
  Box-Muller transform of two uniform draws) into a monthly return. The model is handed
  the sequence \<open>z\<close> of the variates that the successive calls draw, and threads the number of
  calls made so far.
\<close>

definition generateMonthlyReturn :: "real \<Rightarrow> real \<Rightarrow> real \<Rightarrow> real" where
  "generateMonthlyReturn annualReturn annualVolatility zk =
     (let monthlyReturn = annualReturn / 12;
          monthlyVolatility = annualVolatility / sqrt 12
      in monthlyReturn + zk * monthlyVolatility)"

text \<open>The inner loop over the months of one trial.\<close>

fun walk :: "(nat \<Rightarrow> real) \<Rightarrow> real \<Rightarrow> real \<Rightarrow> real \<Rightarrow> nat \<Rightarrow> real \<Rightarrow> nat \<Rightarrow> real \<times> nat" where
  "walk z annualReturn annualVolatility contribution 0 portfolio k = (portfolio, k)"
| "walk z annualReturn annualVolatility contribution (Suc n) portfolio k =
     walk z annualReturn annualVolatility contribution n
       (portfolio * (1 + generateMonthlyReturn annualReturn annualVolatility (z k)) + contribution)
       (Suc k)"

text \<open>The outer loop over the trials; each pushes its final portfolio value.\<close>

fun trials ::
  "(nat \<Rightarrow> real) \<Rightarrow> real \<Rightarrow> real \<Rightarrow> real \<Rightarrow> nat \<Rightarrow> real \<Rightarrow> nat \<Rightarrow> real list \<Rightarrow> nat \<Rightarrow> real list"
where
  "trials z annualReturn annualVolatility contribution months current 0 results k = results"
| "trials z annualReturn annualVolatility contribution months current (Suc n) results k =
     (let (portfolio, k') = walk z annualReturn annualVolatility contribution months current k
      in trials z annualReturn annualVolatility contribution months current n
           (results @ [portfolio]) k')"

text \<open>\<open>Math.round(results[i])\<close>: a read outside the array is \<open>undefined\<close>, which rounds to \<open>NaN\<close>.\<close>

definition roundAt :: "real list \<Rightarrow> int \<Rightarrow> jsnum" where
  "roundAt xs i = js_round (if 0 \<le> i \<and> i < int (length xs) then Num (xs ! nat i) else NaN)"

record percentiles =
  p10 :: jsnum
  p25 :: jsnum
  p50 :: jsnum
  p75 :: jsnum
  p90 :: jsnum

record simulation_result =
  probability :: jsnum
  percentiles :: percentiles
  sim_mean :: jsnum
  sim_min :: jsnum
  sim_max :: jsnum

definition simulateGoal :: "(nat \<Rightarrow> real) \<Rightarrow> goal_params \<Rightarrow> simulation_result" where
  "simulateGoal z p =
     (let iterations = gp_iterations p;
          annualReturn = gp_expectedReturn p / 100;
          annualVolatility = gp_volatility p / 100;
          months = Math_round (gp_years p * 12);
          results = sort (trials z annualReturn annualVolatility (gp_monthlyContribution p)
                            (nat months) (gp_currentAmount p) iterations [] 0);
          successCount = length (filter (\<lambda>r. r \<ge> gp_targetAmount p) results);
          prob = js_div (real successCount) (real iterations)
      in \<lparr>probability = js_divide (js_round (js_mul prob (Num 100))) (Num 100),
          percentiles = \<lparr>
            p10 = roundAt results \<lfloor>real iterations * 0.1\<rfloor>,
            p25 = roundAt results \<lfloor>real iterations * 0.25\<rfloor>,
            p50 = roundAt results \<lfloor>real iterations * 0.5\<rfloor>,
            p75 = roundAt results \<lfloor>real iterations * 0.75\<rfloor>,
            p90 = roundAt results \<lfloor>real iterations * 0.9\<rfloor>\<rparr>,
          sim_mean = js_round (js_div (foldl (+) 0 results) (real iterations)),
          sim_min = roundAt results 0,
          sim_max = roundAt results (int iterations - 1)\<rparr>)"

text \<open>A goal with no horizon and half a unit saved.\<close>

definition half_goal :: goal_params where
  "half_goal = \<lparr>gp_currentAmount = 1 / 2, gp_monthlyContribution = 0, gp_expectedReturn = 12,
     gp_volatility = 15, gp_years = 0, gp_targetAmount = 0, gp_iterations = 1\<rparr>"

text \<open>A source of variates that are all zero.\<close>

definition zero_draws :: "nat \<Rightarrow> real" where
  "zero_draws k = 0"

section \<open>Debt snowball engine\<close>

text \<open>
  This section computes over exact arithmetic. It agrees with the engine wherever every
  intermediate value is a double, as with whole amounts at a zero rate; the section after
  it repeats the two simulations with every result rounded to a double.
\<close>

record liability =
  name :: string
  loanType :: string
  principalAmt :: real
  interestRate :: real
  emi :: real

text \<open>\<open>calculatePriority\<close>: the score that orders the analysed debts.\<close>

definition calculatePriority :: "liability \<Rightarrow> int" where
  "calculatePriority debt =
     (let s1 = (if interestRate debt > 20 then 100
                else if interestRate debt > 15 then 80
                else if interestRate debt > 12 then 60
                else if interestRate debt > 8 then 40
                else 20);
          s2 = (if loanType debt = ''credit-card'' then s1 + 50
                else if loanType debt = ''personal'' then s1 + 30
                else s1);
          s3 = (if principalAmt debt < 50000 then s2 + 20
                else if principalAmt debt < 200000 then s2 + 10
                else s2)
      in if loanType debt = ''home'' \<or> loanType debt = ''education'' then s3 - 30 else s3)"

text \<open>
  A debt as \<open>createPayoffPlan\<close> simulates it: the liability, the priority that
  \<open>analyzeDebts\<close> attached, and the running \<open>balance\<close>, \<open>paid\<close> and \<open>monthsPaid\<close>. The other
  figures that \<open>analyzeDebts\<close> derives for display are not read by the simulation.
\<close>

record debt = liability +
  priority :: int
  balance :: real
  paid :: real
  monthsPaid :: nat

text \<open>
  \<open>analyzeDebts\<close>, as far as the plan uses it: \<open>None\<close> stands for \<open>hasDebt: false\<close>;
  otherwise the debts sorted by priority, highest first. \<open>Array.prototype.sort\<close> is stable,
  and so is \<open>sort_key\<close>. The clone that opens \<open>createPayoffPlan\<close> sets the balance to the
  principal and the running totals to zero.
\<close>

definition cloneDebt :: "liability \<Rightarrow> debt" where
  "cloneDebt d = \<lparr>name = name d, loanType = loanType d, principalAmt = principalAmt d,
     interestRate = interestRate d, emi = emi d, priority = calculatePriority d,
     balance = principalAmt d, paid = 0, monthsPaid = 0\<rparr>"

definition analyzeDebts :: "liability list \<Rightarrow> debt list option" where
  "analyzeDebts liabilities =
     (if liabilities = [] then None
      else Some (sort_key (\<lambda>d. - priority d) (map cloneDebt liabilities)))"

text \<open>The sort by method: highest interest first for the avalanche, else smallest balance first.\<close>

definition sortByMethod :: "string \<Rightarrow> debt list \<Rightarrow> debt list" where
  "sortByMethod method debts =
     (if method = ''avalanche'' then sort_key (\<lambda>d. - interestRate d) debts
      else sort_key balance debts)"

record payment_row =
  pr_name :: string
  pr_payment :: int
  pr_interest :: int
  pr_principal :: int
  pr_balance :: int

text \<open>
  \<open>debts.find(d => d.balance > 0) === debt\<close>: the debt at index \<open>i\<close> is the first one in the
  array, as it stands now, with a positive balance.
\<close>

definition isFirstActive :: "debt list \<Rightarrow> nat \<Rightarrow> bool" where
  "isFirstActive debts i =
     (i < length debts \<and> balance (debts ! i) > 0 \<and> \<not> list_ex (\<lambda>d. balance d > 0) (take i debts))"

text \<open>
  One pass of the body of \<open>for (const debt of debts)\<close>, for the debt at index \<open>i\<close>. The state
  is the array (its objects are updated in place), \<open>freedUpPayment\<close> and the rows pushed so
  far.
\<close>

definition payDebt ::
  "real \<Rightarrow> nat \<Rightarrow> debt list \<times> real \<times> payment_row list \<Rightarrow> debt list \<times> real \<times> payment_row list"
where
  "payDebt totalExtraAvailable i st =
     (case st of (debts, freedUpPayment, payments) \<Rightarrow>
        (let d = debts ! i in
         if balance d \<le> 0 then st
         else
           (let monthlyRate = (interestRate d / 100) / 12;
                interest = balance d * monthlyRate;
                payment0 = (if isFirstActive debts i
                            then emi d + (totalExtraAvailable + freedUpPayment)
                            else emi d);
                payment = min payment0 (balance d + interest);
                principalPaid = payment - interest;
                newBalance = max 0 (balance d - principalPaid);
                d' = d\<lparr>balance := newBalance, paid := paid d + payment,
                       monthsPaid := monthsPaid d + 1\<rparr>;
                row = \<lparr>pr_name = name d, pr_payment = Math_round payment,
                        pr_interest = Math_round interest,
                        pr_principal = Math_round principalPaid,
                        pr_balance = Math_round newBalance\<rparr>
            in (debts[i := d'],
                if newBalance = 0 then freedUpPayment + emi d else freedUpPayment,
                payments @ [row]))))"

text \<open>One month: \<open>freedUpPayment\<close> starts at 0, then every debt in array order.\<close>

definition payMonth :: "real \<Rightarrow> debt list \<Rightarrow> debt list \<times> real \<times> payment_row list" where
  "payMonth totalExtraAvailable debts =
     fold (payDebt totalExtraAvailable) [0..<length debts] (debts, 0, [])"

record month_plan =
  mp_month :: nat
  mp_payments :: "payment_row list"

text \<open>The \<open>while\<close> loop: as long as some balance is positive and fewer than 600 months ran.\<close>

function payoffLoop ::
  "real \<Rightarrow> debt list \<Rightarrow> nat \<Rightarrow> month_plan list \<Rightarrow> debt list \<times> nat \<times> month_plan list"
where
  "payoffLoop totalExtraAvailable debts month plan =
     (if list_ex (\<lambda>d. balance d > 0) debts \<and> month < 600
      then (case payMonth totalExtraAvailable debts of
              (debts', freed, payments) \<Rightarrow>
                payoffLoop totalExtraAvailable debts' (month + 1)
                  (plan @ [\<lparr>mp_month = month + 1, mp_payments = payments\<rparr>]))
      else (debts, month, plan))"
  by pat_completeness auto
termination
  by (relation "measure (\<lambda>(e, ds, m, p). 600 - m)") auto

subsection \<open>Minimum payments only\<close>

record min_debt =
  md_balance :: real
  md_emi :: real
  md_rate :: real
  md_paid :: real

definition toMinDebt :: "liability \<Rightarrow> min_debt" where
  "toMinDebt d = \<lparr>md_balance = principalAmt d, md_emi = emi d, md_rate = interestRate d, md_paid = 0\<rparr>"

definition minStep :: "min_debt \<Rightarrow> min_debt" where
  "minStep d =
     (if md_balance d \<le> 0 then d
      else (let interest = md_balance d * (md_rate d / 100 / 12);
                payment = min (md_emi d) (md_balance d + interest)
            in d\<lparr>md_balance := max 0 (md_balance d + interest - payment),
                 md_paid := md_paid d + payment\<rparr>))"

function minLoop :: "min_debt list \<Rightarrow> nat \<Rightarrow> min_debt list \<times> nat" where
  "minLoop debts month =
     (if list_ex (\<lambda>d. md_balance d > 0) debts \<and> month < 600
      then minLoop (map minStep debts) (month + 1)
      else (debts, month))"
  by pat_completeness auto
termination
  by (relation "measure (\<lambda>(ds, m). 600 - m)") auto

record totals =
  months :: nat
  totalPaid :: real

definition simulateMinimumPayments :: "liability list \<Rightarrow> totals" where
  "simulateMinimumPayments liabilities =
     (case minLoop (map toMinDebt liabilities) 0 of
        (debts, month) \<Rightarrow> \<lparr>months = month, totalPaid = foldl (+) 0 (map md_paid debts)\<rparr>)"

subsection \<open>The payoff plan\<close>

record debt_summary =
  ds_name :: string
  ds_initialBalance :: real
  ds_totalPaid :: int
  ds_monthsToPay :: nat
  ds_interestPaid :: int

record plan_summary =
  totalMonths :: nat
  sm_totalPaid :: int
  monthsSaved :: int
  interestSaved :: int

record payoff_plan =
  pp_method :: string
  pp_plan :: "month_plan list"
  pp_debts :: "debt_summary list"
  pp_summary :: plan_summary

definition createPayoffPlan :: "liability list \<Rightarrow> real \<Rightarrow> string \<Rightarrow> payoff_plan option" where
  "createPayoffPlan liabilities extraPayment method =
     (case analyzeDebts liabilities of
        None \<Rightarrow> None
      | Some analysed \<Rightarrow>
          (case payoffLoop extraPayment (sortByMethod method analysed) 0 [] of
             (debts, month, plan) \<Rightarrow>
               (let withExtra = \<lparr>months = month, totalPaid = foldl (+) 0 (map paid debts)\<rparr>;
                    withoutExtra = simulateMinimumPayments liabilities
                in Some \<lparr>
                     pp_method = method,
                     pp_plan = plan,
                     pp_debts = map (\<lambda>d. \<lparr>ds_name = name d,
                                            ds_initialBalance = principalAmt d,
                                            ds_totalPaid = Math_round (paid d),
                                            ds_monthsToPay = monthsPaid d,
                                            ds_interestPaid = Math_round (paid d - principalAmt d)\<rparr>)
                                    debts,
                     pp_summary = \<lparr>
                       totalMonths = months withExtra,
                       sm_totalPaid = Math_round (totalPaid withExtra),
                       monthsSaved = int (months withoutExtra) - int (months withExtra),
                       interestSaved =
                         Math_round (totalPaid withoutExtra - totalPaid withExtra)\<rparr>\<rparr>)))"

text \<open>Two interest-free loans with the same installment; the first is cleared in one month.\<close>

definition loanA :: liability where
  "loanA = \<lparr>name = ''A'', loanType = ''personal'', principalAmt = 1000, interestRate = 0,
     emi = 1000\<rparr>"

definition loanB :: liability where
  "loanB = \<lparr>name = ''B'', loanType = ''personal'', principalAmt = 4000, interestRate = 0,
     emi = 1000\<rparr>"

text \<open>An interest-free loan of 601 repaid at 1 a month: 600 months do not clear it.\<close>

definition slowLoan :: liability where
  "slowLoan = \<lparr>name = ''S'', loanType = ''personal'', principalAmt = 601, interestRate = 0,
     emi = 1\<rparr>"

text \<open>The states that loan runs through: after \<open>k\<close> months at 2 a month, and at 1 a month.\<close>

definition slowState :: "nat \<Rightarrow> debt" where
  "slowState k = (cloneDebt slowLoan)\<lparr>balance := 601 - 2 * real k, paid := 2 * real k,
     monthsPaid := k\<rparr>"

definition slowMin :: "nat \<Rightarrow> min_debt" where
  "slowMin k = \<lparr>md_balance = 601 - real k, md_emi = 1, md_rate = 0, md_paid = real k\<rparr>"

section \<open>The debt snowball engine in double precision\<close>

text \<open>
  A JavaScript number is an IEEE 754 binary64 value, and every arithmetic operation
  returns the double nearest to the exact result, a tie going to the even significand.
  \<open>f64 x\<close> is that double: 53 significant bits at the exponent of \<open>x\<close>, and below
  \<open>2^-1022\<close> the fixed spacing \<open>2^-1074\<close> of the subnormal numbers. The overflow to
  \<open>Infinity\<close> above \<open>2^1024\<close> is not modelled.
\<close>

definition round_half_even :: "real \<Rightarrow> int" where
  "round_half_even x =
     (let f = \<lfloor>x\<rfloor>; d = x - real_of_int f
      in if d < 1 / 2 then f
         else if 1 / 2 < d then f + 1
         else if even f then f else f + 1)"

definition f64 :: "real \<Rightarrow> real" where
  "f64 x =
     (if x = 0 then 0
      else (let e = max \<lfloor>log 2 \<bar>x\<bar>\<rfloor> (- 1022);
                ulp = 2 powi (e - 52)
            in real_of_int (round_half_even (x / ulp)) * ulp))"

text \<open>
  The functions of the engine once more, each arithmetic result rounded as the engine
  computes it, in the order the source evaluates: \<open>(rate / 100) / 12\<close>,
  \<open>payment += totalExtraAvailable + freedUpPayment\<close> as
  \<open>payment + (totalExtraAvailable + freedUpPayment)\<close>, \<open>debt.balance + interest - payment\<close>
  from the left. Comparisons, \<open>Math.min\<close>, \<open>Math.max\<close> and \<open>Math.round\<close> are exact on
  doubles. The liabilities and the extra payment are taken to be doubles already.
\<close>

definition payDebt_f64 ::
  "real \<Rightarrow> nat \<Rightarrow> debt list \<times> real \<times> payment_row list \<Rightarrow> debt list \<times> real \<times> payment_row list"
where
  "payDebt_f64 totalExtraAvailable i st =
     (case st of (debts, freedUpPayment, payments) \<Rightarrow>
        (let d = debts ! i in
         if balance d \<le> 0 then st
         else
           (let monthlyRate = f64 (f64 (interestRate d / 100) / 12);
                interest = f64 (balance d * monthlyRate);
                payment0 = (if isFirstActive debts i
                            then f64 (emi d + f64 (totalExtraAvailable + freedUpPayment))
                            else emi d);
                payment = min payment0 (f64 (balance d + interest));
                principalPaid = f64 (payment - interest);
                newBalance = max 0 (f64 (balance d - principalPaid));
                d' = d\<lparr>balance := newBalance, paid := f64 (paid d + payment),
                       monthsPaid := monthsPaid d + 1\<rparr>;
                row = \<lparr>pr_name = name d, pr_payment = Math_round payment,
                        pr_interest = Math_round interest,
                        pr_principal = Math_round principalPaid,
                        pr_balance = Math_round newBalance\<rparr>
            in (debts[i := d'],
                if newBalance = 0 then f64 (freedUpPayment + emi d) else freedUpPayment,
                payments @ [row]))))"

definition payMonth_f64 :: "real \<Rightarrow> debt list \<Rightarrow> debt list \<times> real \<times> payment_row list" where
  "payMonth_f64 totalExtraAvailable debts =
     fold (payDebt_f64 totalExtraAvailable) [0..<length debts] (debts, 0, [])"

function payoffLoop_f64 ::
  "real \<Rightarrow> debt list \<Rightarrow> nat \<Rightarrow> month_plan list \<Rightarrow> debt list \<times> nat \<times> month_plan list"
where
  "payoffLoop_f64 totalExtraAvailable debts month plan =
     (if list_ex (\<lambda>d. balance d > 0) debts \<and> month < 600
      then (case payMonth_f64 totalExtraAvailable debts of
              (debts', freed, payments) \<Rightarrow>
                payoffLoop_f64 totalExtraAvailable debts' (month + 1)
                  (plan @ [\<lparr>mp_month = month + 1, mp_payments = payments\<rparr>]))
      else (debts, month, plan))"
  by pat_completeness auto
termination
  by (relation "measure (\<lambda>(e, ds, m, p). 600 - m)") auto

definition minStep_f64 :: "min_debt \<Rightarrow> min_debt" where
  "minStep_f64 d =
     (if md_balance d \<le> 0 then d
      else (let interest = f64 (md_balance d * f64 (f64 (md_rate d / 100) / 12));
                payment = min (md_emi d) (f64 (md_balance d + interest))
            in d\<lparr>md_balance := max 0 (f64 (f64 (md_balance d + interest) - payment)),
                 md_paid := f64 (md_paid d + payment)\<rparr>))"

function minLoop_f64 :: "min_debt list \<Rightarrow> nat \<Rightarrow> min_debt list \<times> nat" where
  "minLoop_f64 debts month =
     (if list_ex (\<lambda>d. md_balance d > 0) debts \<and> month < 600
      then minLoop_f64 (map minStep_f64 debts) (month + 1)
      else (debts, month))"
  by pat_completeness auto
termination
  by (relation "measure (\<lambda>(ds, m). 600 - m)") auto

definition simulateMinimumPayments_f64 :: "liability list \<Rightarrow> totals" where
  "simulateMinimumPayments_f64 liabilities =
     (case minLoop_f64 (map toMinDebt liabilities) 0 of
        (debts, month) \<Rightarrow>
          \<lparr>months = month, totalPaid = foldl (\<lambda>s p. f64 (s + p)) 0 (map md_paid debts)\<rparr>)"

definition createPayoffPlan_f64 :: "liability list \<Rightarrow> real \<Rightarrow> string \<Rightarrow> payoff_plan option" where
  "createPayoffPlan_f64 liabilities extraPayment method =
     (case analyzeDebts liabilities of
        None \<Rightarrow> None
      | Some analysed \<Rightarrow>
          (case payoffLoop_f64 extraPayment (sortByMethod method analysed) 0 [] of
             (debts, month, plan) \<Rightarrow>
               (let withExtra = \<lparr>months = month,
                      totalPaid = foldl (\<lambda>s p. f64 (s + p)) 0 (map paid debts)\<rparr>;
                    withoutExtra = simulateMinimumPayments_f64 liabilities
                in Some \<lparr>
                     pp_method = method,
                     pp_plan = plan,
                     pp_debts = map (\<lambda>d. \<lparr>ds_name = name d,
                                            ds_initialBalance = principalAmt d,
                                            ds_totalPaid = Math_round (paid d),
                                            ds_monthsToPay = monthsPaid d,
                                            ds_interestPaid =
                                              Math_round (f64 (paid d - principalAmt d))\<rparr>)
                                    debts,
                     pp_summary = \<lparr>
                       totalMonths = months withExtra,
                       sm_totalPaid = Math_round (totalPaid withExtra),
                       monthsSaved = int (months withoutExtra) - int (months withExtra),
                       interestSaved =
                         Math_round (f64 (totalPaid withoutExtra - totalPaid withExtra))\<rparr>\<rparr>)))"

text \<open>One loan of 100 at 6 percent with installment 100: two months clear it.\<close>

definition smallLoan :: liability where
  "smallLoan = \<lparr>name = ''L'', loanType = ''personal'', principalAmt = 100, interestRate = 6,
     emi = 100\<rparr>"

text \<open>
  The doubles that loan runs through: its monthly rate \<open>(6 / 100) / 12\<close> as computed, the
  results of \<open>1 + rate\<close> and of \<open>(1 + rate) - rate\<close>, and the total paid after two months.
\<close>

definition rate6 :: real where
  "rate6 = 5764607523034235 / 2 ^ 60"

definition grown6 :: real where
  "grown6 = 4526117625507348 / 2 ^ 52"

definition shrunk6 :: real where
  "shrunk6 = 9007199254740991 / 2 ^ 53"

definition paid6 :: real where
  "paid6 = 7072234711715676 / 2 ^ 46"

text \<open>
  The balance the plan is left with after \<open>m\<close> months, and the debt in that state: after
  the first month, after \<open>m\<close> months for \<open>m\<close> from 2 to 21, and at the end.
\<close>

definition residue :: "nat \<Rightarrow> real" where
  "residue m = 2 powi (52 - 53 * int m)"

definition afterFirst :: debt where
  "afterFirst = \<lparr>name = ''L'', loanType = ''personal'', principalAmt = 100,
     interestRate = 6, emi = 100, priority = 70, balance = residue 1, paid = 100,
     monthsPaid = 1\<rparr>"

definition residueState :: "nat \<Rightarrow> debt" where
  "residueState m = \<lparr>name = ''L'', loanType = ''personal'', principalAmt = 100,
     interestRate = 6, emi = 100, priority = 70, balance = residue m, paid = paid6,
     monthsPaid = m\<rparr>"

definition clearedState :: debt where
  "clearedState = \<lparr>name = ''L'', loanType = ''personal'', principalAmt = 100,
     interestRate = 6, emi = 100, priority = 70, balance = 0, paid = paid6, monthsPaid = 22\<rparr>"

section \<open>Properties of the tax calculator\<close>

lemma Math_round_mono: "x \<le> y \<Longrightarrow> Math_round x \<le> Math_round y"
  unfolding Math_round_def by (intro floor_mono) simp

lemma Math_round_int [simp]: "Math_round (real_of_int n) = n"
  unfolding Math_round_def by linarith

lemma Math_round_numeral [simp]: "Math_round (numeral n) = numeral n"
  using Math_round_int [of "numeral n"] by simp

lemma Math_round_zero [simp]: "Math_round 0 = 0"
  using Math_round_int [of 0] by simp

lemma taxableInSlab_nonneg: "slab_ok s \<Longrightarrow> slab_min s < t \<Longrightarrow> 0 \<le> taxableInSlab s t"
  by (auto simp: slab_ok_def taxableInSlab_def split: bound.splits)

lemma taxableInSlab_mono: "a \<le> b \<Longrightarrow> taxableInSlab s a \<le> taxableInSlab s b"
  by (auto simp: taxableInSlab_def split: bound.splits)

lemma slabTax_mono:
  "list_all slab_ok ss \<Longrightarrow> a \<le> b \<Longrightarrow> x \<le> y \<Longrightarrow> slabTax ss a x \<le> slabTax ss b y"
proof (induction ss arbitrary: x y)
  case Nil
  then show ?case by simp
next
  case (Cons s ss)
  have ok: "slab_ok s" and r: "0 \<le> slab_rate s / 100"
    using Cons.prems(1) by (auto simp: slab_ok_def)
  let ?fa = "if a > slab_min s then x + taxableInSlab s a * (slab_rate s / 100) else x"
  let ?fb = "if b > slab_min s then y + taxableInSlab s b * (slab_rate s / 100) else y"
  have "?fa \<le> ?fb"
  proof (cases "a > slab_min s")
    case True
    then have "b > slab_min s" using Cons.prems(2) by simp
    moreover have "taxableInSlab s a * (slab_rate s / 100) \<le> taxableInSlab s b * (slab_rate s / 100)"
      using taxableInSlab_mono [OF Cons.prems(2)] r by (intro mult_right_mono)
    ultimately show ?thesis using True Cons.prems(3) by simp
  next
    case False
    show ?thesis
    proof (cases "b > slab_min s")
      case True
      have "0 \<le> taxableInSlab s b * (slab_rate s / 100)"
        using taxableInSlab_nonneg [OF ok True] r by simp
      then show ?thesis using False True Cons.prems(3) by simp
    next
      case below: False
      then show ?thesis using False Cons.prems(3) by simp
    qed
  qed
  then have "slabTax ss a ?fa \<le> slabTax ss b ?fb"
    using Cons.IH Cons.prems by simp
  then show ?case by simp
qed

lemma slabTax_nonneg: "list_all slab_ok ss \<Longrightarrow> 0 \<le> x \<Longrightarrow> 0 \<le> slabTax ss t x"
proof (induction ss arbitrary: x)
  case Nil
  then show ?case by simp
next
  case (Cons s ss)
  have ok: "slab_ok s" and r: "0 \<le> slab_rate s / 100"
    using Cons.prems(1) by (auto simp: slab_ok_def)
  have "0 \<le> (if t > slab_min s then x + taxableInSlab s t * (slab_rate s / 100) else x)"
    using taxableInSlab_nonneg [OF ok] r Cons.prems(2) by simp
  then show ?case using Cons.IH Cons.prems(1) by simp
qed

lemma new_regime_ok: "config_ok new_regime"
  by (simp add: config_ok_def new_regime_def slab_ok_def)

lemma old_regime_ok: "config_ok old_regime"
  by (simp add: config_ok_def old_regime_def slab_ok_def)

lemma taxableIncomeOf_mono:
  "a \<le> b \<Longrightarrow>
   taxableIncomeOf cfg (p\<lparr>grossIncome := a\<rparr>) \<le> taxableIncomeOf cfg (p\<lparr>grossIncome := b\<rparr>)"
  by (auto simp: taxableIncomeOf_def Let_def max_def)

lemma afterRebate_mono:
  "0 \<le> maxRebate (rebate87A cfg) \<Longrightarrow> 0 \<le> x \<Longrightarrow> x \<le> y \<Longrightarrow> a \<le> b \<Longrightarrow>
   afterRebate cfg a x \<le> afterRebate cfg b y"
  by (auto simp: afterRebate_def rebateOf_def min_def)

lemma afterRebate_nonneg: "0 \<le> x \<Longrightarrow> 0 \<le> afterRebate cfg t x"
  by (auto simp: afterRebate_def rebateOf_def min_def)

lemma surchargeOf_mono:
  "0 \<le> x \<Longrightarrow> x \<le> y \<Longrightarrow> a \<le> b \<Longrightarrow> surchargeOf a x \<le> surchargeOf b y"
  unfolding surchargeOf_def by (auto split: if_splits)

lemma calculateTax_total:
  "taxSlabs (regime p) = Some cfg \<Longrightarrow>
   \<exists>r. calculateTax p = Inr r \<and> totalTax r = Math_round (totalTaxOf cfg p)"
  by (simp add: calculateTax_def totalTaxOf_def Let_def)

lemma totalTaxOf_mono:
  assumes ok: "config_ok cfg" and ab: "a \<le> b"
  shows "totalTaxOf cfg (p\<lparr>grossIncome := a\<rparr>) \<le> totalTaxOf cfg (p\<lparr>grossIncome := b\<rparr>)"
proof -
  let ?ta = "taxableIncomeOf cfg (p\<lparr>grossIncome := a\<rparr>)"
  let ?tb = "taxableIncomeOf cfg (p\<lparr>grossIncome := b\<rparr>)"
  let ?xa = "slabTax (slabs cfg) ?ta 0"
  let ?xb = "slabTax (slabs cfg) ?tb 0"
  have sl: "list_all slab_ok (slabs cfg)" and mr: "0 \<le> maxRebate (rebate87A cfg)"
    using ok by (auto simp: config_ok_def)
  have t: "?ta \<le> ?tb" using ab by (rule taxableIncomeOf_mono)
  have x: "?xa \<le> ?xb" using sl t by (intro slabTax_mono) simp_all
  have x0: "0 \<le> ?xa" using sl by (intro slabTax_nonneg) simp_all
  have y: "afterRebate cfg ?ta ?xa \<le> afterRebate cfg ?tb ?xb"
    using mr x0 x t by (rule afterRebate_mono)
  have y0: "0 \<le> afterRebate cfg ?ta ?xa" using x0 by (rule afterRebate_nonneg)
  have z: "surchargeOf ?ta (afterRebate cfg ?ta ?xa) \<le> surchargeOf ?tb (afterRebate cfg ?tb ?xb)"
    using y0 y t by (rule surchargeOf_mono)
  have cg: "capitalGainsOf (p\<lparr>grossIncome := a\<rparr>) = capitalGainsOf (p\<lparr>grossIncome := b\<rparr>)"
    by (simp add: capitalGainsOf_def)
  have lin: "\<And>u v u' v' :: real. u \<le> u' \<Longrightarrow> v \<le> v' \<Longrightarrow>
      u + v + (u + v) * 0.04 + w \<le> u' + v' + (u' + v') * 0.04 + w" for w :: real
    by (simp add: add_mono divide_right_mono)
  show ?thesis
    unfolding totalTaxOf_def Let_def afterRebate_def [symmetric] cg
    by (rule lin [OF y z])
qed

text \<open>
  C3. Under either regime and with every other input fixed, the total tax that
  \<open>calculateTax\<close> returns does not decrease when the gross income grows: neither the
  rebate threshold nor a surcharge breakpoint makes more income cost less tax.
\<close>

theorem calculateTax_monotone:
  assumes r: "r = ''old'' \<or> r = ''new''" and ab: "a \<le> b"
  shows "\<exists>ra rb. calculateTax (p\<lparr>regime := r, grossIncome := a\<rparr>) = Inr ra
           \<and> calculateTax (p\<lparr>regime := r, grossIncome := b\<rparr>) = Inr rb
           \<and> totalTax ra \<le> totalTax rb"
proof -
  obtain cfg where cfg: "taxSlabs r = Some cfg" and ok: "config_ok cfg"
    using r new_regime_ok old_regime_ok by (auto simp: taxSlabs_def)
  let ?pa = "p\<lparr>regime := r, grossIncome := a\<rparr>"
  let ?pb = "p\<lparr>regime := r, grossIncome := b\<rparr>"
  obtain ra where ra: "calculateTax ?pa = Inr ra" "totalTax ra = Math_round (totalTaxOf cfg ?pa)"
    using calculateTax_total [of ?pa cfg] cfg by auto
  obtain rb where rb: "calculateTax ?pb = Inr rb" "totalTax rb = Math_round (totalTaxOf cfg ?pb)"
    using calculateTax_total [of ?pb cfg] cfg by auto
  have "totalTaxOf cfg ((p\<lparr>regime := r\<rparr>)\<lparr>grossIncome := a\<rparr>)
      \<le> totalTaxOf cfg ((p\<lparr>regime := r\<rparr>)\<lparr>grossIncome := b\<rparr>)"
    using ok ab by (rule totalTaxOf_mono)
  then have "totalTax ra \<le> totalTax rb"
    using ra(2) rb(2) by (simp add: Math_round_mono)
  then show ?thesis using ra(1) rb(1) by blast
qed

theorem calculateTax_monotone_witness:
  "\<exists>ra rb. calculateTax (plain_params 700000 ''new'') = Inr ra
     \<and> calculateTax (plain_params 800000 ''new'') = Inr rb
     \<and> totalTax ra \<le> totalTax rb"
  using calculateTax_monotone [of "''new''" 700000 800000 "plain_params 0 ''x''"]
  by (simp add: plain_params_def)

lemma slabTax_new_1125000: "slabTax (slabs new_regime) 1125000 0 = 52500"
  by (simp add: new_regime_def taxableInSlab_def)

lemma taxable_new_1200000: "taxableIncomeOf new_regime (plain_params 1200000 ''new'') = 1125000"
  by (simp add: taxableIncomeOf_def plain_params_def new_regime_def)

lemma rebate_new_1125000: "rebateOf new_regime 1125000 b = None"
  by (simp add: rebateOf_def new_regime_def)

lemma surcharge_1125000: "surchargeOf 1125000 b = 0"
  by (simp add: surchargeOf_def)

lemma capitalGains_plain: "capitalGainsOf (plain_params g r) = 0"
  by (simp add: capitalGainsOf_def plain_params_def)

text \<open>
  C1. \<open>calculateTax\<close> on a gross income of 1,200,000 under the new regime, with no
  deduction inputs, has taxable income 1,125,000; the slabs add up to
  (800,000 - 400,000) * 0.05 + (1,125,000 - 800,000) * 0.10 = 52,500, no rebate applies
  and no surcharge, so the base tax returned is 52,500.
\<close>

theorem calculateTax_scenario_new_1200000:
  "\<exists>r. calculateTax (plain_params 1200000 ''new'') = Inr r
     \<and> bd_taxableIncome (breakdown r) = 1125000
     \<and> slabTax (slabs new_regime) (bd_taxableIncome (breakdown r)) 0
         = (800000 - 400000) * 0.05 + (1125000 - 800000) * 0.10
     \<and> slabTax (slabs new_regime) (bd_taxableIncome (breakdown r)) 0 = 52500
     \<and> bd_rebate87A (breakdown r) = None
     \<and> baseTax r = 52500
     \<and> surcharge r = 0"
proof -
  have rg: "taxSlabs (regime (plain_params 1200000 ''new'')) = Some new_regime"
    by (simp add: taxSlabs_def plain_params_def)
  show ?thesis
    unfolding calculateTax_def rg option.case Let_def taxable_new_1200000
      slabTax_new_1125000 rebate_new_1125000 surcharge_1125000 capitalGains_plain
    by (simp add: slabTax_new_1125000)
qed

lemma calculateTax_effectiveRate:
  "taxSlabs (regime p) = Some cfg \<Longrightarrow>
   \<exists>r. calculateTax p = Inr r \<and>
     effectiveRate r =
       (if grossIncome p > 0
        then Num (real_of_int (Math_round (totalTaxOf cfg p / grossIncome p * 10000)) / 100)
        else Num 0)"
  by (simp add: calculateTax_def totalTaxOf_def Let_def js_div_def)

text \<open>
  C10. Under either regime, a gross income that is not positive gives the effective rate
  0: the division by the gross income is not reached. For every gross income the
  effective rate is a finite number.
\<close>

theorem calculateTax_effectiveRate_guard:
  assumes "regime p = ''old'' \<or> regime p = ''new''"
  shows "\<exists>r. calculateTax p = Inr r
           \<and> (grossIncome p \<le> 0 \<longrightarrow> effectiveRate r = Num 0)
           \<and> (\<exists>q. effectiveRate r = Num q)"
proof -
  obtain cfg where cfg: "taxSlabs (regime p) = Some cfg"
    using assms by (auto simp: taxSlabs_def)
  from calculateTax_effectiveRate [OF cfg] obtain r where
    r: "calculateTax p = Inr r" and
    e: "effectiveRate r =
       (if grossIncome p > 0
        then Num (real_of_int (Math_round (totalTaxOf cfg p / grossIncome p * 10000)) / 100)
        else Num 0)" by blast
  have "grossIncome p \<le> 0 \<longrightarrow> effectiveRate r = Num 0" using e by simp
  moreover have "\<exists>q. effectiveRate r = Num q"
  proof (cases "grossIncome p > 0")
    case True
    then have "effectiveRate r =
        Num (real_of_int (Math_round (totalTaxOf cfg p / grossIncome p * 10000)) / 100)"
      using e by (simp only: if_True)
    then show ?thesis by blast
  next
    case False
    then have "effectiveRate r = Num 0" using e by (simp only: if_False)
    then show ?thesis by blast
  qed
  ultimately show ?thesis using r by blast
qed

theorem calculateTax_effectiveRate_guard_witness:
  "\<exists>r. calculateTax (plain_params 0 ''old'') = Inr r \<and> effectiveRate r = Num 0"
  using calculateTax_effectiveRate_guard [of "plain_params 0 ''old''"]
  by (auto simp: plain_params_def)

lemma calculateTax_regime:
  "\<exists>r. calculateTax (p\<lparr>regime := ''old''\<rparr>) = Inr r"
  "\<exists>r. calculateTax (p\<lparr>regime := ''new''\<rparr>) = Inr r"
  by (simp_all add: calculateTax_def taxSlabs_def Let_def)

lemma totalTaxOf_zero_income_old: "totalTaxOf old_regime (plain_params 0 ''old'') = 0"
proof -
  have t: "taxableIncomeOf old_regime (plain_params 0 ''old'') = 0"
    by (simp add: taxableIncomeOf_def plain_params_def old_regime_def Let_def section80CLimit_def
        section80D_self_def section80D_parents_def homeLoan_interestUnder24b_def)
  have s: "slabTax (slabs old_regime) 0 0 = 0" by (simp add: old_regime_def)
  show ?thesis
    unfolding totalTaxOf_def Let_def t s
    by (simp add: rebateOf_def surchargeOf_def capitalGains_plain old_regime_def)
qed

lemma totalTaxOf_zero_income_new: "totalTaxOf new_regime (plain_params 0 ''new'') = 0"
proof -
  have t: "taxableIncomeOf new_regime (plain_params 0 ''new'') = 0"
    by (simp add: taxableIncomeOf_def plain_params_def new_regime_def Let_def)
  have s: "slabTax (slabs new_regime) 0 0 = 0" by (simp add: new_regime_def)
  show ?thesis
    unfolding totalTaxOf_def Let_def t s
    by (simp add: rebateOf_def surchargeOf_def capitalGains_plain new_regime_def)
qed

lemma totalTax_zero_income:
  "r = ''old'' \<or> r = ''new'' \<Longrightarrow>
   \<exists>x. calculateTax (plain_params 0 r) = Inr x \<and> totalTax x = 0"
proof (elim disjE)
  assume r: "r = ''old''"
  have "taxSlabs (regime (plain_params 0 ''old'')) = Some old_regime"
    by (simp add: taxSlabs_def plain_params_def)
  from calculateTax_total [OF this] show ?thesis
    unfolding r by (simp add: totalTaxOf_zero_income_old)
next
  assume r: "r = ''new''"
  have "taxSlabs (regime (plain_params 0 ''new'')) = Some new_regime"
    by (simp add: taxSlabs_def plain_params_def)
  from calculateTax_total [OF this] show ?thesis
    unfolding r by (simp add: totalTaxOf_zero_income_new)
qed

lemma plain_regime [simp]: "(plain_params g r)\<lparr>regime := r'\<rparr> = plain_params g r'"
  by (simp add: plain_params_def)

text \<open>
  C5, as stated, fails on a tie: with no income both regimes owe nothing, and the
  recommended regime is the old one.
\<close>

theorem compareRegimes_tie_counterexample:
  "\<not> isl (compareRegimes (plain_params 0 ''new''))
   \<and> totalTax (cmp_old (projr (compareRegimes (plain_params 0 ''new''))))
       = totalTax (cmp_new (projr (compareRegimes (plain_params 0 ''new''))))
   \<and> recommendedRegime (projr (compareRegimes (plain_params 0 ''new''))) = ''old''
   \<and> recommendedRegime (projr (compareRegimes (plain_params 0 ''new''))) \<noteq> ''new''"
proof -
  obtain x where x: "calculateTax (plain_params 0 ''old'') = Inr x" "totalTax x = 0"
    using totalTax_zero_income [of "''old''"] by auto
  obtain y where y: "calculateTax (plain_params 0 ''new'') = Inr y" "totalTax y = 0"
    using totalTax_zero_income [of "''new''"] by auto
  show ?thesis
    unfolding compareRegimes_def plain_regime x(1) y(1) sum.case Let_def
    by (simp add: x(2) y(2))
qed

text \<open>
  C5, amended. \<open>compareRegimes\<close> runs \<open>calculateTax\<close> once under each regime, reports the
  absolute value of the difference of the two total taxes, and recommends the new regime
  exactly when the old regime's total tax is strictly larger; on a tie it recommends the
  old regime.
\<close>

theorem compareRegimes_recommendation:
  "\<exists>oldR newR c.
      calculateTax (p\<lparr>regime := ''old''\<rparr>) = Inr oldR
    \<and> calculateTax (p\<lparr>regime := ''new''\<rparr>) = Inr newR
    \<and> compareRegimes p = Inr c
    \<and> cmp_old c = oldR \<and> cmp_new c = newR
    \<and> savings c = \<bar>totalTax oldR - totalTax newR\<bar>
    \<and> recommendedRegime c = (if totalTax oldR > totalTax newR then ''new'' else ''old'')"
proof -
  obtain oldR where o: "calculateTax (p\<lparr>regime := ''old''\<rparr>) = Inr oldR"
    using calculateTax_regime(1) by blast
  obtain newR where n: "calculateTax (p\<lparr>regime := ''new''\<rparr>) = Inr newR"
    using calculateTax_regime(2) by blast
  show ?thesis
    unfolding compareRegimes_def o n sum.case Let_def by simp
qed

theorem compareRegimes_recommendation_witness:
  "\<exists>c. compareRegimes (plain_params 0 ''new'') = Inr c \<and> savings c = 0
        \<and> recommendedRegime c = ''old''"
proof -
  obtain x where x: "calculateTax (plain_params 0 ''old'') = Inr x" "totalTax x = 0"
    using totalTax_zero_income [of "''old''"] by auto
  obtain y where y: "calculateTax (plain_params 0 ''new'') = Inr y" "totalTax y = 0"
    using totalTax_zero_income [of "''new''"] by auto
  show ?thesis
    using compareRegimes_recommendation [of "plain_params 0 ''new''"] x y
    by auto
qed

section \<open>Properties of the inflation engine and the goal solver\<close>

lemma Math_pow_pos: "0 < b \<Longrightarrow> Math_pow b e = Num (b powr e)"
  by (simp add: Math_pow_def)

text \<open>
  C9. For X > 0, Y \<ge> 0 and R \<ge> 0, \<open>futureValue\<close> returns the finite number
  X * (1 + R/100)^Y, and \<open>presentValue\<close> of that number, over the same years and rate,
  returns X: the second divides by the factor the first multiplied by. Over the reals the
  round trip is exact.
\<close>

theorem futureValue_presentValue_roundtrip:
  assumes "0 < X" and "0 \<le> Y" and "0 \<le> R"
  shows "\<exists>F. futureValue X Y R = Num F \<and> presentValue F Y R = Num X
           \<and> F = X * (1 + R / 100) powr Y"
proof -
  have b: "0 < 1 + R / 100" using assms(3) by (simp add: add_pos_nonneg)
  then have p: "0 < (1 + R / 100) powr Y" by simp
  have fv: "futureValue X Y R = Num (X * (1 + R / 100) powr Y)"
    by (simp add: futureValue_def Math_pow_pos [OF b])
  have pv: "presentValue (X * (1 + R / 100) powr Y) Y R = Num X"
    using p by (simp add: presentValue_def Math_pow_pos [OF b] js_div_def)
  show ?thesis using fv pv by blast
qed

theorem futureValue_presentValue_roundtrip_witness:
  "\<exists>F. futureValue 100 2 10 = Num F \<and> presentValue F 2 10 = Num 100 \<and> F = 121"
proof -
  have "(1 + 10 / 100 :: real) powr 2 = 121 / 100"
    by (simp add: power2_eq_square)
  then show ?thesis
    using futureValue_presentValue_roundtrip [of 100 2 10] by simp
qed

lemma calculateRequiredSIP_zero_rate:
  assumes "sp_expectedReturn p = 0" and "sp_currentAmount p < sp_targetAmount p"
  shows "calculateRequiredSIP p = NaN"
proof -
  have pw: "Math_pow 1 e = Num 1" for e by (simp add: Math_pow_def)
  show ?thesis
    using assms by (simp add: calculateRequiredSIP_def Let_def pw js_sub_def js_div_def)
qed

text \<open>
  C4. With an expected return of 0, nothing saved, a target of 120,000 and one year,
  \<open>calculateRequiredSIP\<close> divides zero by zero and returns \<open>NaN\<close>, where the linear
  formula gives 120,000 / 12 = 10,000; \<open>calculateEMI\<close>, which tests for the zero rate,
  returns 10,000 on the same figures.
\<close>

theorem calculateRequiredSIP_zero_rate_NaN:
  "calculateRequiredSIP \<lparr>sp_currentAmount = 0, sp_expectedReturn = 0,
      sp_targetAmount = 120000, sp_years = 1\<rparr> = NaN
   \<and> calculateEMI 120000 0 1 = Num 10000"
proof -
  have "calculateEMI 120000 0 1 = Num 10000"
    by (simp add: calculateEMI_def js_div_def Math_round_def)
  then show ?thesis
    using calculateRequiredSIP_zero_rate [of "\<lparr>sp_currentAmount = 0, sp_expectedReturn = 0,
      sp_targetAmount = 120000, sp_years = 1\<rparr>"] by simp
qed

declare accumulate.simps [simp del]

text \<open>
  The loop is total (its termination is proved with the definition) and stops with a month
  count of at most 600 when started at 0.
\<close>

lemma accumulate_months_bound:
  "snd (accumulate r c t v m) \<le> max m 600"
proof (induction r c t v m rule: accumulate.induct)
  case (1 r c t v m)
  show ?case
  proof (cases "v < t \<and> m < 600")
    case True
    then show ?thesis using "1.IH" by (subst accumulate.simps) (simp add: max_def)
  next
    case False
    then show ?thesis by (subst accumulate.simps) auto
  qed
qed

lemma accumulate_run:
  "n \<le> 600 \<Longrightarrow> \<forall>k < n. valueAfter r c v0 k < t \<Longrightarrow>
   accumulate r c t v0 0 = accumulate r c t (valueAfter r c v0 n) n"
proof (induction n)
  case 0
  then show ?case by simp
next
  case (Suc n)
  have "accumulate r c t v0 0 = accumulate r c t (valueAfter r c v0 n) n"
    using Suc by simp
  also have "\<dots> = accumulate r c t (valueAfter r c v0 (Suc n)) (Suc n)"
    using Suc.prems by (subst accumulate.simps) simp
  finally show ?case .
qed

lemma accumulate_found:
  assumes "n < 600" "\<forall>k < n. valueAfter r c v0 k < t" "t \<le> valueAfter r c v0 n"
  shows "accumulate r c t v0 0 = (valueAfter r c v0 n, n)"
proof -
  have "accumulate r c t v0 0 = accumulate r c t (valueAfter r c v0 n) n"
    using assms by (intro accumulate_run) simp_all
  also have "\<dots> = (valueAfter r c v0 n, n)"
    using assms(3) by (subst accumulate.simps) simp
  finally show ?thesis .
qed

lemma accumulate_capped:
  assumes "\<forall>k < 600. valueAfter r c v0 k < t"
  shows "accumulate r c t v0 0 = (valueAfter r c v0 600, 600)"
proof -
  have "accumulate r c t v0 0 = accumulate r c t (valueAfter r c v0 600) 600"
    using assms by (intro accumulate_run) simp_all
  also have "\<dots> = (valueAfter r c v0 600, 600)"
    by (subst accumulate.simps) simp
  finally show ?thesis .
qed

text \<open>
  What \<open>calculateYearsToTarget\<close> returns: \<open>null\<close> exactly when the value stays below the
  target through month 599, and otherwise the first month, below 600, at which it meets
  the target.
\<close>

lemma calculateYearsToTarget_null_iff:
  "calculateYearsToTarget p = None \<longleftrightarrow>
   (\<forall>k < 600. valueAfter (tp_expectedReturn p / 100 / 12) (tp_monthlyContribution p)
                  (tp_currentAmount p) k < tp_targetAmount p)"
proof -
  let ?r = "tp_expectedReturn p / 100 / 12" and ?c = "tp_monthlyContribution p"
  let ?v = "tp_currentAmount p" and ?t = "tp_targetAmount p"
  show ?thesis
  proof (cases "\<forall>k < 600. valueAfter ?r ?c ?v k < ?t")
    case True
    then show ?thesis
      by (simp add: calculateYearsToTarget_def accumulate_capped)
  next
    case False
    define n where "n = (LEAST k. \<not> valueAfter ?r ?c ?v k < ?t)"
    obtain k0 where k0: "k0 < 600" "\<not> valueAfter ?r ?c ?v k0 < ?t" using False by blast
    have n1: "\<not> valueAfter ?r ?c ?v n < ?t" unfolding n_def using k0(2) by (rule LeastI)
    have n2: "\<forall>k < n. valueAfter ?r ?c ?v k < ?t"
      unfolding n_def using not_less_Least by blast
    have n3: "n < 600" using k0 n2 n1 by (metis not_less_iff_gr_or_eq order.strict_trans)
    have "accumulate ?r ?c ?t ?v 0 = (valueAfter ?r ?c ?v n, n)"
      using n1 n2 n3 by (intro accumulate_found) simp_all
    then show ?thesis using False n3 by (simp add: calculateYearsToTarget_def)
  qed
qed

lemma calculateYearsToTarget_some_iff:
  "calculateYearsToTarget p = Some n \<longleftrightarrow>
   n < 600
   \<and> tp_targetAmount p \<le> valueAfter (tp_expectedReturn p / 100 / 12) (tp_monthlyContribution p)
         (tp_currentAmount p) n
   \<and> (\<forall>k < n. valueAfter (tp_expectedReturn p / 100 / 12) (tp_monthlyContribution p)
                  (tp_currentAmount p) k < tp_targetAmount p)"
proof -
  let ?r = "tp_expectedReturn p / 100 / 12" and ?c = "tp_monthlyContribution p"
  let ?v = "tp_currentAmount p" and ?t = "tp_targetAmount p"
  show ?thesis
  proof
    assume s: "calculateYearsToTarget p = Some n"
    then have "\<not> (\<forall>k < 600. valueAfter ?r ?c ?v k < ?t)"
      using calculateYearsToTarget_null_iff [of p] by simp
    then obtain k0 where k0: "k0 < 600" "\<not> valueAfter ?r ?c ?v k0 < ?t" by blast
    define m where "m = (LEAST k. \<not> valueAfter ?r ?c ?v k < ?t)"
    have m1: "\<not> valueAfter ?r ?c ?v m < ?t" unfolding m_def using k0(2) by (rule LeastI)
    have m2: "\<forall>k < m. valueAfter ?r ?c ?v k < ?t"
      unfolding m_def using not_less_Least by blast
    have m3: "m < 600" using k0 m2 m1 by (metis not_less_iff_gr_or_eq order.strict_trans)
    have "accumulate ?r ?c ?t ?v 0 = (valueAfter ?r ?c ?v m, m)"
      using m1 m2 m3 by (intro accumulate_found) simp_all
    then have "calculateYearsToTarget p = Some m"
      using m3 by (simp add: calculateYearsToTarget_def)
    then have "n = m" using s by simp
    then show "n < 600 \<and> ?t \<le> valueAfter ?r ?c ?v n \<and> (\<forall>k < n. valueAfter ?r ?c ?v k < ?t)"
      using m1 m2 m3 by simp
  next
    assume a: "n < 600 \<and> ?t \<le> valueAfter ?r ?c ?v n \<and> (\<forall>k < n. valueAfter ?r ?c ?v k < ?t)"
    then have "accumulate ?r ?c ?t ?v 0 = (valueAfter ?r ?c ?v n, n)"
      by (intro accumulate_found) simp_all
    then show "calculateYearsToTarget p = Some n"
      using a by (simp add: calculateYearsToTarget_def)
  qed
qed

lemma valueAfter_unit: "valueAfter 0 1 0 n = real n"
  by (induction n) simp_all

text \<open>
  C8, as stated, fails at the cap itself: saving 1 a month at no return towards a target
  of 600, the value after 600 months is 600, so the target is met within the 600 months,
  and \<open>calculateYearsToTarget\<close> returns \<open>null\<close>.
\<close>

theorem calculateYearsToTarget_month_600_null:
  "valueAfter 0 1 0 600 = 600
   \<and> calculateYearsToTarget \<lparr>tp_currentAmount = 0, tp_monthlyContribution = 1,
        tp_expectedReturn = 0, tp_targetAmount = 600\<rparr> = None"
proof -
  have a: "valueAfter 0 1 0 600 = 600" using valueAfter_unit [of 600] by simp
  have b: "calculateYearsToTarget \<lparr>tp_currentAmount = 0, tp_monthlyContribution = 1,
        tp_expectedReturn = 0, tp_targetAmount = 600\<rparr> = None"
    by (simp add: calculateYearsToTarget_null_iff valueAfter_unit)
  show ?thesis using a b by simp
qed

text \<open>
  C8, amended. \<open>calculateYearsToTarget\<close> always terminates, after at most 600
  accumulations. It returns \<open>null\<close> exactly when the value is below the target at every
  month count below 600 (so also when the 600th accumulation itself reaches the target);
  otherwise it returns the month count, below 600, at which the accumulated value first
  meets the target.
\<close>

theorem calculateYearsToTarget_result:
  "snd (accumulate (tp_expectedReturn p / 100 / 12) (tp_monthlyContribution p)
          (tp_targetAmount p) (tp_currentAmount p) 0) \<le> 600
   \<and> (calculateYearsToTarget p = None \<longleftrightarrow>
        (\<forall>k < 600. valueAfter (tp_expectedReturn p / 100 / 12) (tp_monthlyContribution p)
                  (tp_currentAmount p) k < tp_targetAmount p))
   \<and> (\<forall>n. calculateYearsToTarget p = Some n \<longleftrightarrow>
        n < 600
        \<and> tp_targetAmount p \<le> valueAfter (tp_expectedReturn p / 100 / 12)
              (tp_monthlyContribution p) (tp_currentAmount p) n
        \<and> (\<forall>k < n. valueAfter (tp_expectedReturn p / 100 / 12) (tp_monthlyContribution p)
                  (tp_currentAmount p) k < tp_targetAmount p))"
  using accumulate_months_bound [of "tp_expectedReturn p / 100 / 12" "tp_monthlyContribution p"
      "tp_targetAmount p" "tp_currentAmount p" 0]
    calculateYearsToTarget_null_iff [of p] calculateYearsToTarget_some_iff [of p]
  by simp

theorem calculateYearsToTarget_result_witness:
  "calculateYearsToTarget \<lparr>tp_currentAmount = 0, tp_monthlyContribution = 1,
     tp_expectedReturn = 0, tp_targetAmount = 599\<rparr> = Some 599"
  using calculateYearsToTarget_result [of "\<lparr>tp_currentAmount = 0, tp_monthlyContribution = 1,
     tp_expectedReturn = 0, tp_targetAmount = 599\<rparr>"]
  by (simp add: valueAfter_unit)

section \<open>Properties of the Monte Carlo projection\<close>

lemma trials_zero_months:
  "trials z ar av c 0 cur n res k = res @ replicate n cur"
  by (induction n arbitrary: res) (simp_all add: replicate_app_Cons_same)

lemma sort_replicate: "sort (replicate n (x::real)) = replicate n x"
  by (simp add: sorted_sort_id sorted_replicate)

lemma roundAt_replicate:
  "0 \<le> i \<Longrightarrow> i < int n \<Longrightarrow> roundAt (replicate n x) i = Num (real_of_int (Math_round x))"
  by (simp add: roundAt_def)

lemma floor_fraction_in_range:
  fixes n :: nat
  assumes "1 \<le> n" "0 \<le> q" "q < 1"
  shows "0 \<le> \<lfloor>real n * q\<rfloor> \<and> \<lfloor>real n * q\<rfloor> < int n"
proof -
  have "real n * q < real n * 1" using assms by (intro mult_strict_left_mono) simp_all
  then have "\<lfloor>real n * q\<rfloor> < int n" by (simp add: floor_less_iff)
  moreover have "0 \<le> \<lfloor>real n * q\<rfloor>" using assms by simp
  ultimately show ?thesis by simp
qed

text \<open>
  C6, amended. With at least one iteration and \<open>years = 0\<close>, whatever the random draws,
  \<open>simulateGoal\<close> returns probability 1 when \<open>currentAmount \<ge> targetAmount\<close> and 0
  otherwise, and each of p10, p25, p50, p75 and p90 is \<open>Math.round(currentAmount)\<close>: the
  current amount rounded to the nearest integer, which is the current amount itself when
  that is a whole number.
\<close>

theorem simulateGoal_zero_years:
  assumes "1 \<le> gp_iterations p" and "gp_years p = 0"
  shows "probability (simulateGoal z p)
           = Num (if gp_currentAmount p \<ge> gp_targetAmount p then 1 else 0)
       \<and> p10 (percentiles (simulateGoal z p)) = Num (real_of_int (Math_round (gp_currentAmount p)))
       \<and> p25 (percentiles (simulateGoal z p)) = Num (real_of_int (Math_round (gp_currentAmount p)))
       \<and> p50 (percentiles (simulateGoal z p)) = Num (real_of_int (Math_round (gp_currentAmount p)))
       \<and> p75 (percentiles (simulateGoal z p)) = Num (real_of_int (Math_round (gp_currentAmount p)))
       \<and> p90 (percentiles (simulateGoal z p)) = Num (real_of_int (Math_round (gp_currentAmount p)))"
proof -
  let ?n = "gp_iterations p" and ?c = "gp_currentAmount p"
  have m: "nat (Math_round (gp_years p * 12)) = 0"
    using assms(2) by (simp add: Math_round_def)
  have res: "sort (trials z ar av c (nat (Math_round (gp_years p * 12))) ?c ?n [] 0)
           = replicate ?n ?c" for ar av c
    unfolding m trials_zero_months by (simp add: sort_replicate)
  have cnt: "length (filter (\<lambda>r. r \<ge> gp_targetAmount p) (replicate ?n ?c))
           = (if ?c \<ge> gp_targetAmount p then ?n else 0)"
    by simp
  have n0: "real ?n \<noteq> 0" using assms(1) by simp
  have prob: "js_divide (js_round (js_mul (js_div (real (if ?c \<ge> gp_targetAmount p then ?n else 0))
                 (real ?n)) (Num 100))) (Num 100)
            = Num (if ?c \<ge> gp_targetAmount p then 1 else 0)"
    using n0 by (simp add: js_div_def Math_round_def)
  have r10: "0 \<le> \<lfloor>real ?n * 0.1\<rfloor> \<and> \<lfloor>real ?n * 0.1\<rfloor> < int ?n"
    using assms(1) by (intro floor_fraction_in_range) simp_all
  have r25: "0 \<le> \<lfloor>real ?n * 0.25\<rfloor> \<and> \<lfloor>real ?n * 0.25\<rfloor> < int ?n"
    using assms(1) by (intro floor_fraction_in_range) simp_all
  have r50: "0 \<le> \<lfloor>real ?n * 0.5\<rfloor> \<and> \<lfloor>real ?n * 0.5\<rfloor> < int ?n"
    using assms(1) by (intro floor_fraction_in_range) simp_all
  have r75: "0 \<le> \<lfloor>real ?n * 0.75\<rfloor> \<and> \<lfloor>real ?n * 0.75\<rfloor> < int ?n"
    using assms(1) by (intro floor_fraction_in_range) simp_all
  have r90: "0 \<le> \<lfloor>real ?n * 0.9\<rfloor> \<and> \<lfloor>real ?n * 0.9\<rfloor> < int ?n"
    using assms(1) by (intro floor_fraction_in_range) simp_all
  show ?thesis
    unfolding simulateGoal_def Let_def res cnt
    using prob r10 r25 r50 r75 r90
    by (simp add: roundAt_replicate del: of_nat_mult)
qed

theorem simulateGoal_zero_years_witness:
  "probability (simulateGoal zero_draws half_goal) = Num 1
   \<and> p50 (percentiles (simulateGoal zero_draws half_goal)) = Num 1"
  using simulateGoal_zero_years [of half_goal zero_draws]
  by (simp add: half_goal_def Math_round_def)

text \<open>
  C6, as stated, fails for a current amount that is not a whole number: with one
  iteration, no years and a current amount of 0.5, the median returned is 1.
\<close>

theorem simulateGoal_percentile_counterexample:
  "1 \<le> gp_iterations half_goal \<and> gp_years half_goal = 0
   \<and> p50 (percentiles (simulateGoal zero_draws half_goal)) = Num 1
   \<and> p50 (percentiles (simulateGoal zero_draws half_goal)) \<noteq> Num (gp_currentAmount half_goal)"
  by (simp add: half_goal_def simulateGoal_def Let_def Math_round_def roundAt_def)

section \<open>Properties of the debt snowball engine\<close>

text \<open>
  C2. Two interest-free loans, A of 1,000 and B of 4,000, each with installment 1,000, and
  no extra payment. A is cleared in month 1, and in that month B receives its installment
  and A's. In months 2 and 3 B receives its own installment of 1,000 only: the installment
  that A freed is not carried over, and B is cleared in month 3, not in month 2.
\<close>

theorem createPayoffPlan_freed_installment_one_month:
  "map_option pp_plan (createPayoffPlan [loanA, loanB] 0 ''avalanche'') =
  Some [
    \<lparr>mp_month = 1, mp_payments = [
       \<lparr>pr_name = ''A'', pr_payment = 1000, pr_interest = 0, pr_principal = 1000, pr_balance = 0\<rparr>,
       \<lparr>pr_name = ''B'', pr_payment = 2000, pr_interest = 0, pr_principal = 2000, pr_balance = 2000\<rparr>]\<rparr>,
    \<lparr>mp_month = 2, mp_payments = [
       \<lparr>pr_name = ''B'', pr_payment = 1000, pr_interest = 0, pr_principal = 1000, pr_balance = 1000\<rparr>]\<rparr>,
    \<lparr>mp_month = 3, mp_payments = [
       \<lparr>pr_name = ''B'', pr_payment = 1000, pr_interest = 0, pr_principal = 1000, pr_balance = 0\<rparr>]\<rparr>]"
  by code_simp

declare payoffLoop.simps [simp del] minLoop.simps [simp del]

lemma payMonth_single: "payMonth x [d] = payDebt x 0 ([d], 0, [])"
  by (simp add: payMonth_def)

lemma cloneDebt_slowLoan:
  "cloneDebt slowLoan = \<lparr>name = ''S'', loanType = ''personal'', principalAmt = 601,
     interestRate = 0, emi = 1, priority = 70, balance = 601, paid = 0, monthsPaid = 0\<rparr>"
  by (simp add: cloneDebt_def slowLoan_def calculatePriority_def)

lemma slowMin_balance [simp]: "md_balance (slowMin k) = 601 - real k"
  by (simp add: slowMin_def)

lemma slowState_fields [simp]:
  "balance (slowState k) = 601 - 2 * real k" "paid (slowState k) = 2 * real k"
  "monthsPaid (slowState k) = k" "emi (slowState k) = 1" "interestRate (slowState k) = 0"
  by (simp_all add: slowState_def cloneDebt_def slowLoan_def)

lemma slowState_step:
  assumes "k < 300"
  shows "fst (payMonth 1 [slowState k]) = [slowState (Suc k)]"
proof -
  have b: "balance (slowState k) > 2" using assms by simp
  have f: "isFirstActive [slowState k] 0" using b by (simp add: isFirstActive_def)
  have m: "min (1 + (1 + 0)) (601 - 2 * real k) = (2::real)" using assms by simp
  show ?thesis
    unfolding payMonth_single payDebt_def
    using b f m by (simp add: Let_def slowState_def cloneDebt_slowLoan algebra_simps)
qed

lemma slowState_last:
  "fst (payMonth 1 [slowState 300]) =
     [(cloneDebt slowLoan)\<lparr>balance := 0, paid := 601, monthsPaid := 301\<rparr>]"
proof -
  have f: "isFirstActive [slowState 300] 0" by (simp add: isFirstActive_def)
  show ?thesis
    unfolding payMonth_single payDebt_def
    using f by (simp add: Let_def slowState_def cloneDebt_slowLoan)
qed

lemma payoffLoop_slow:
  "300 - k = n \<Longrightarrow> k \<le> 300 \<Longrightarrow>
   \<exists>plan'. payoffLoop 1 [slowState k] k plan =
     ([(cloneDebt slowLoan)\<lparr>balance := 0, paid := 601, monthsPaid := 301\<rparr>], 301, plan')"
proof (induction n arbitrary: k plan)
  case 0
  then have k: "k = 300" by simp
  obtain ds fr rows where pm: "payMonth 1 [slowState 300] = (ds, fr, rows)"
    by (cases "payMonth 1 [slowState 300]") auto
  have ds: "ds = [(cloneDebt slowLoan)\<lparr>balance := 0, paid := 601, monthsPaid := 301\<rparr>]"
    using slowState_last pm by simp
  have "payoffLoop 1 [slowState 300] 300 plan =
        payoffLoop 1 ds 301 (plan @ [\<lparr>mp_month = 301, mp_payments = rows\<rparr>])"
    by (subst payoffLoop.simps) (simp add: pm)
  also have "\<dots> = (ds, 301, plan @ [\<lparr>mp_month = 301, mp_payments = rows\<rparr>])"
    by (subst payoffLoop.simps) (simp add: ds)
  finally show ?case unfolding k ds by blast
next
  case (Suc n)
  then have k: "k < 300" and n: "300 - Suc k = n" by simp_all
  obtain ds fr rows where pm: "payMonth 1 [slowState k] = (ds, fr, rows)"
    by (cases "payMonth 1 [slowState k]") auto
  have ds: "ds = [slowState (Suc k)]" using slowState_step [OF k] pm by simp
  have "payoffLoop 1 [slowState k] k plan =
        payoffLoop 1 [slowState (Suc k)] (Suc k) (plan @ [\<lparr>mp_month = k + 1, mp_payments = rows\<rparr>])"
    using k by (subst payoffLoop.simps) (simp add: pm ds)
  then show ?case using Suc.IH [OF n] k by simp
qed

lemma slowMin_step: "k < 600 \<Longrightarrow> minStep (slowMin k) = slowMin (Suc k)"
  by (simp add: minStep_def slowMin_def Let_def)

lemma minLoop_slow:
  "600 - k = n \<Longrightarrow> k \<le> 600 \<Longrightarrow> minLoop [slowMin k] k = ([slowMin 600], 600)"
proof (induction n arbitrary: k)
  case 0
  then have "k = 600" by simp
  then show ?case by (subst minLoop.simps) simp
next
  case (Suc n)
  then have k: "k < 600" and n: "600 - Suc k = n" by simp_all
  have "minLoop [slowMin k] k = minLoop [slowMin (Suc k)] (Suc k)"
    using k by (subst minLoop.simps) (simp add: slowMin_step)
  then show ?case using Suc.IH [OF n] k by simp
qed

lemma simulateMinimumPayments_slow:
  "simulateMinimumPayments [slowLoan] = \<lparr>months = 600, totalPaid = 600\<rparr>"
proof -
  have "map toMinDebt [slowLoan] = [slowMin 0]"
    by (simp add: toMinDebt_def slowLoan_def slowMin_def)
  then show ?thesis
    using minLoop_slow [of 0 600]
    by (simp add: simulateMinimumPayments_def slowMin_def)
qed

text \<open>
  Where the 600-month cap cuts the baseline short, the plan can have paid more than the
  baseline: for one interest-free loan of 601 with installment 1 and an extra payment of 1,
  the baseline stops at the cap having paid 600, the plan clears the loan in 301 months
  having paid 601, and the reported interest saved is -1.
\<close>

lemma createPayoffPlan_cap_interestSaved:
  "map_option pp_summary (createPayoffPlan [slowLoan] 1 ''avalanche'') =
     Some \<lparr>totalMonths = 301, sm_totalPaid = 601, monthsSaved = 299, interestSaved = - 1\<rparr>
   \<and> totalPaid (simulateMinimumPayments [slowLoan]) = 600"
proof -
  have a: "analyzeDebts [slowLoan] = Some [cloneDebt slowLoan]"
    by (simp add: analyzeDebts_def)
  have s: "sortByMethod ''avalanche'' [cloneDebt slowLoan] = [slowState 0]"
    by (simp add: sortByMethod_def slowState_def cloneDebt_def slowLoan_def)
  obtain plan' where p: "payoffLoop 1 [slowState 0] 0 [] =
     ([(cloneDebt slowLoan)\<lparr>balance := 0, paid := 601, monthsPaid := 301\<rparr>], 301, plan')"
    using payoffLoop_slow [of 0 300 "[]"] by auto
  show ?thesis
    unfolding createPayoffPlan_def a option.case s p
    by (simp add: simulateMinimumPayments_slow Let_def Math_round_def)
qed

section \<open>The debt snowball engine in double precision: properties\<close>

text \<open>Rounding at a known exponent, for normal and for subnormal results.\<close>

lemma round_half_even_int [simp]: "round_half_even (real_of_int n) = n"
  by (simp add: round_half_even_def)

lemma f64_bracket:
  assumes lo: "2 powi e \<le> \<bar>x\<bar>" and hi: "\<bar>x\<bar> < 2 powi (e + 1)"
  shows "f64 x = real_of_int (round_half_even (x / 2 powi (max e (- 1022) - 52)))
                   * 2 powi (max e (- 1022) - 52)"
proof -
  have pos: "0 < \<bar>x\<bar>" using lo by (smt (verit) zero_less_power_int)
  then have nz: "x \<noteq> 0" by simp
  have p1: "(2::real) powr real_of_int e = 2 powi e" by (intro powr_real_of_int') simp_all
  have p2: "(2::real) powr (real_of_int e + 1) = 2 powi (e + 1)"
    using powr_real_of_int' [of 2 "e + 1"] by simp
  have "\<lfloor>log 2 \<bar>x\<bar>\<rfloor> = e"
    using floor_log_eq_powr_iff [of "\<bar>x\<bar>" 2 e] pos lo hi p1 p2 by simp
  then show ?thesis using nz by (simp add: f64_def Let_def)
qed

lemma f64_scale:
  assumes lo: "2 powi e \<le> \<bar>y\<bar>" and hi: "\<bar>y\<bar> < 2 powi (e + 1)" and nm: "- 1022 \<le> e - j"
  shows "f64 (2 powi (- j) * y)
           = 2 powi (- j) * (real_of_int (round_half_even (y / 2 powi (e - 52))) * 2 powi (e - 52))"
proof -
  have s: "(2::real) powi (e - j) = 2 powi (- j) * 2 powi e"
    using power_int_add [of "2::real" "- j" e] by (simp add: algebra_simps)
  have s1: "(2::real) powi (e - j + 1) = 2 powi (- j) * 2 powi (e + 1)"
    using power_int_add [of "2::real" "- j" "e + 1"] by (simp add: algebra_simps)
  have s2: "(2::real) powi (e - j - 52) = 2 powi (- j) * 2 powi (e - 52)"
    using power_int_add [of "2::real" "- j" "e - 52"] by (simp add: algebra_simps)
  have pj: "(0::real) < 2 powi (- j)" by simp
  have a: "\<bar>2 powi (- j) * y\<bar> = 2 powi (- j) * \<bar>y\<bar>" using pj by (simp add: abs_mult)
  have l: "2 powi (e - j) \<le> \<bar>2 powi (- j) * y\<bar>"
    unfolding a s using lo pj by (intro mult_left_mono) simp_all
  have h: "\<bar>2 powi (- j) * y\<bar> < 2 powi (e - j + 1)"
    unfolding a s1 using hi pj by (intro mult_strict_left_mono) simp_all
  have m: "max (e - j) (- 1022) = e - j" using nm by simp
  have q: "2 powi (- j) * y / (2 powi (- j) * 2 powi (e - 52)) = y / 2 powi (e - 52)"
    using pj by simp
  show ?thesis
    unfolding f64_bracket [OF l h] m s2 q by (simp add: algebra_simps)
qed

lemma f64_normal:
  assumes "2 powi e \<le> \<bar>y\<bar>" and "\<bar>y\<bar> < 2 powi (e + 1)" and "- 1022 \<le> e"
  shows "f64 y = real_of_int (round_half_even (y / 2 powi (e - 52))) * 2 powi (e - 52)"
  using f64_scale [OF assms(1) assms(2), of 0] assms(3) by simp

lemma f64_tiny:
  assumes "x \<noteq> 0" and "\<bar>x\<bar> < 2 powi (- 1022)"
  shows "f64 x = real_of_int (round_half_even (x / 2 powi (- 1074))) * 2 powi (- 1074)"
proof -
  have pos: "0 < \<bar>x\<bar>" using assms(1) by simp
  define k where "k = \<lfloor>log 2 \<bar>x\<bar>\<rfloor>"
  have "2 powr real_of_int k \<le> \<bar>x\<bar>"
    using floor_log_eq_powr_iff [of "\<bar>x\<bar>" 2 k] pos by (simp add: k_def)
  moreover have "(2::real) powi (- 1022) = 2 powr real_of_int (- 1022)"
    by (intro powr_real_of_int' [symmetric]) simp_all
  ultimately have "(2::real) powr real_of_int k < 2 powr real_of_int (- 1022)"
    using assms(2) by linarith
  then have "real_of_int k < real_of_int (- 1022)" by simp
  then have "k < - 1022" by linarith
  then have "\<lfloor>log 2 \<bar>x\<bar>\<rfloor> < - 1022" by (simp only: k_def)
  then have "max \<lfloor>log 2 \<bar>x\<bar>\<rfloor> (- 1022) = - 1022" by simp
  then show ?thesis using assms(1) by (simp add: f64_def Let_def)
qed

lemma rate6_computed: "f64 (f64 (6 / 100) / 12) = rate6"
proof -
  have a: "f64 (6 / 100) = 8646911284551352 / 2 ^ 57"
    by (subst f64_normal [of "- 5"]) (simp_all add: round_half_even_def)
  show ?thesis
    unfolding a
    by (subst f64_normal [of "- 8"]) (simp_all add: round_half_even_def rate6_def)
qed

lemma f64_100: "f64 100 = 100"
  by (subst f64_normal [of 6]) (simp_all add: round_half_even_def)

lemma f64_0 [simp]: "f64 0 = 0"
  by (simp add: f64_def)

lemma round_half_even_near:
  assumes "0 \<le> t" and "t < 1 / 2"
  shows "round_half_even (real_of_int n + t) = n"
proof -
  have "\<lfloor>real_of_int n + t\<rfloor> = n" using assms by linarith
  then show ?thesis using assms by (simp add: round_half_even_def)
qed

lemma residue_pos: "0 < residue m"
  by (simp add: residue_def)

lemma residue_Suc: "residue (Suc m) = residue m * 2 powi (- 53)"
proof -
  have "52 - 53 * int (Suc m) = (52 - 53 * int m) + (- 53)" by simp
  then show ?thesis
    unfolding residue_def using power_int_add [of "2::real" "52 - 53 * int m" "- 53"] by simp
qed

lemma residue_le: "1 \<le> m \<Longrightarrow> residue m \<le> 1 / 2"
proof -
  assume "1 \<le> m"
  then have "52 - 53 * int m \<le> - 1" by simp
  then have "(2::real) powi (52 - 53 * int m) \<le> 2 powi (- 1)"
    by (intro power_int_increasing) simp_all
  then show ?thesis by (simp add: residue_def)
qed

lemma residue_le2: "2 \<le> m \<Longrightarrow> residue m \<le> 2 powi (- 54)"
proof -
  assume "2 \<le> m"
  then have "52 - 53 * int m \<le> - 54" by simp
  then show ?thesis
    unfolding residue_def by (intro power_int_increasing) simp_all
qed

lemma f64_residue:
  assumes "2 powi e \<le> \<bar>y\<bar>" and "\<bar>y\<bar> < 2 powi (e + 1)" and "53 * int m \<le> e + 1074"
  shows "f64 (residue m * y)
           = residue m * (real_of_int (round_half_even (y / 2 powi (e - 52))) * 2 powi (e - 52))"
proof -
  have r: "residue m = 2 powi (- (53 * int m - 52))" by (simp add: residue_def)
  have "- 1022 \<le> e - (53 * int m - 52)" using assms(3) by simp
  from f64_scale [OF assms(1) assms(2) this] show ?thesis unfolding r .
qed

lemma f64_interest: "m \<le> 20 \<Longrightarrow> f64 (residue m * rate6) = residue m * rate6"
  by (subst f64_residue [of "- 8"]) (simp_all add: rate6_def round_half_even_def)

lemma f64_owed: "m \<le> 20 \<Longrightarrow> f64 (residue m + residue m * rate6) = residue m * grown6"
proof -
  assume m: "m \<le> 20"
  have "residue m + residue m * rate6 = residue m * (1 + rate6)" by (simp add: algebra_simps)
  also have "f64 \<dots> = residue m * grown6"
    using m by (subst f64_residue [of 0]) (simp_all add: rate6_def grown6_def round_half_even_def)
  finally show ?thesis .
qed

lemma f64_principalPaid:
  "m \<le> 20 \<Longrightarrow> f64 (residue m * grown6 - residue m * rate6) = residue m * shrunk6"
proof -
  assume m: "m \<le> 20"
  have "residue m * grown6 - residue m * rate6 = residue m * (grown6 - rate6)"
    by (simp add: algebra_simps)
  also have "f64 \<dots> = residue m * shrunk6"
    using m
    by (subst f64_residue [of "- 1"])
      (simp_all add: rate6_def grown6_def shrunk6_def round_half_even_def)
  finally show ?thesis .
qed

lemma f64_newBalance:
  assumes "m \<le> 20"
  shows "f64 (residue m - residue m * shrunk6) = residue (Suc m)"
proof -
  have e: "residue m - residue m * shrunk6 = residue m * 2 powi (- 53)"
    by (simp add: shrunk6_def algebra_simps)
  show ?thesis
  proof (cases "m \<le> 19")
    case True
    have "f64 (residue m * 2 powi (- 53)) = residue m * 2 powi (- 53)"
      using True by (subst f64_residue [of "- 53"]) (simp_all add: round_half_even_def)
    then show ?thesis unfolding e residue_Suc .
  next
    case False
    then have m: "m = 20" using assms by simp
    have v: "residue 20 * 2 powi (- 53) = 2 powi (- 1061)"
      using residue_Suc [of 20, symmetric] by (simp add: residue_def)
    have t: "f64 (2 powi (- 1061)) = 2 powi (- 1061)"
      by (subst f64_tiny) (simp_all add: round_half_even_def)
    have e20: "residue 20 - residue 20 * shrunk6 = residue 20 * 2 powi (- 53)"
      using e unfolding m .
    show ?thesis unfolding m e20 residue_Suc v by (rule t)
  qed
qed

lemma f64_paid_first: "f64 (100 + residue 1 * grown6) = paid6"
proof -
  have r: "residue 1 = 1 / 2" by (simp add: residue_def)
  show ?thesis
    unfolding r
    by (subst f64_normal [of 6]) (simp_all add: grown6_def paid6_def round_half_even_def)
qed

lemma f64_paid_later:
  assumes "2 \<le> m"
  shows "f64 (paid6 + residue m * grown6) = paid6"
proof -
  define t where "t = residue m * grown6"
  have g: "0 \<le> grown6" "grown6 \<le> 2" by (simp_all add: grown6_def)
  have t0: "0 \<le> t" using residue_pos [of m] g by (simp add: t_def)
  have "t \<le> 2 powi (- 54) * 2"
    unfolding t_def using residue_le2 [OF assms] g residue_pos [of m]
    by (intro mult_mono) simp_all
  then have t1: "t \<le> 1 / 2 ^ 53" by simp
  have s: "(paid6 + t) / 2 powi (6 - 52) = real_of_int 7072234711715676 + t * 2 ^ 46"
    by (simp add: paid6_def algebra_simps)
  have "t * 2 ^ 46 \<le> (1 / 2 ^ 53) * 2 ^ 46" using t1 by (intro mult_right_mono) simp_all
  then have t2: "t * 2 ^ 46 < 1 / 2" by simp
  have r: "round_half_even ((paid6 + t) / 2 powi (6 - 52)) = 7072234711715676"
    unfolding s using t0 t2 by (intro round_half_even_near) simp_all
  have lo: "2 powi 6 \<le> \<bar>paid6 + t\<bar>" using t0 by (simp add: paid6_def)
  have hi: "\<bar>paid6 + t\<bar> < 2 powi (6 + 1)" using t0 t1 by (simp add: paid6_def)
  have "f64 (paid6 + t)
      = real_of_int (round_half_even ((paid6 + t) / 2 powi (6 - 52))) * 2 powi (6 - 52)"
    using lo hi by (intro f64_normal) simp_all
  then show ?thesis
    unfolding t_def [symmetric] r by (simp add: paid6_def)
qed

declare payoffLoop_f64.simps [simp del] minLoop_f64.simps [simp del]

lemma payMonth_f64_single: "payMonth_f64 x [d] = payDebt_f64 x 0 ([d], 0, [])"
  by (simp add: payMonth_f64_def)

lemma isFirstActive_single: "isFirstActive [d] 0 = (0 < balance d)"
  by (simp add: isFirstActive_def)

lemma cloneDebt_smallLoan:
  "cloneDebt smallLoan = \<lparr>name = ''L'', loanType = ''personal'', principalAmt = 100,
     interestRate = 6, emi = 100, priority = 70, balance = 100, paid = 0, monthsPaid = 0\<rparr>"
  by (simp add: cloneDebt_def smallLoan_def calculatePriority_def)

lemma residue_1: "residue 1 = 1 / 2"
  by (simp add: residue_def)

lemma f64_first_interest: "f64 (100 * rate6) = 1 / 2"
  by (subst f64_normal [of "- 1"]) (simp_all add: rate6_def round_half_even_def)

lemma f64_halves: "f64 (201 / 2) = 201 / 2" "f64 (199 / 2) = 199 / 2" "f64 (1 / 2) = 1 / 2"
proof -
  show "f64 (201 / 2) = 201 / 2"
    by (subst f64_normal [of 6]) (simp_all add: round_half_even_def)
  show "f64 (199 / 2) = 199 / 2"
    by (subst f64_normal [of 6]) (simp_all add: round_half_even_def)
  show "f64 (1 / 2) = 1 / 2"
    by (subst f64_normal [of "- 1"]) (simp_all add: round_half_even_def)
qed

lemma rate6_computed_reduced: "f64 (f64 (3 / 50) / 12) = rate6"
  using rate6_computed by simp

lemma month_1: "fst (payMonth_f64 0 [cloneDebt smallLoan]) = [afterFirst]"
proof -
  have mn: "min 100 (201 / 2) = (100::real)" by simp
  show ?thesis
    unfolding payMonth_f64_single payDebt_f64_def cloneDebt_smallLoan afterFirst_def residue_1
    by (simp add: Let_def isFirstActive_single rate6_computed_reduced f64_first_interest f64_100
        f64_halves mn)
qed

lemma residue_owed_small: "1 \<le> m \<Longrightarrow> residue m * grown6 \<le> 100"
proof -
  assume "1 \<le> m"
  then have "residue m * grown6 \<le> (1 / 2) * 2"
    using residue_le [of m] residue_pos [of m] by (intro mult_mono) (simp_all add: grown6_def)
  then show ?thesis by simp
qed

lemma month_2: "fst (payMonth_f64 0 [afterFirst]) = [residueState 2]"
proof -
  have mn: "min 100 (residue (Suc 0) * grown6) = residue (Suc 0) * grown6"
    using residue_owed_small [of 1] by simp
  have mx: "max 0 (residue (Suc (Suc 0))) = residue (Suc (Suc 0))"
    using residue_pos [of "Suc (Suc 0)"] by simp
  have pd: "f64 (100 + residue (Suc 0) * grown6) = paid6" using f64_paid_first by simp
  have nz: "residue (Suc (Suc 0)) \<noteq> 0" using residue_pos [of "Suc (Suc 0)"] by simp
  have two: "residue 2 = residue (Suc (Suc 0))" by (simp add: numeral_2_eq_2)
  show ?thesis
    unfolding payMonth_f64_single payDebt_f64_def afterFirst_def residueState_def two
    using residue_pos [of "Suc 0"] nz
    by (simp add: Let_def isFirstActive_single rate6_computed_reduced f64_interest
        f64_owed f64_100 mn f64_principalPaid f64_newBalance mx pd)
qed

lemma month_Suc:
  assumes "2 \<le> m" and "m \<le> 20"
  shows "fst (payMonth_f64 0 [residueState m]) = [residueState (Suc m)]"
proof -
  have mn: "min 100 (residue m * grown6) = residue m * grown6"
    using residue_owed_small [of m] assms(1) by simp
  have mx: "max 0 (residue (Suc m)) = residue (Suc m)"
    using residue_pos [of "Suc m"] by simp
  have pd: "f64 (paid6 + residue m * grown6) = paid6"
    using assms(1) by (rule f64_paid_later)
  have nz: "residue (Suc m) \<noteq> 0" using residue_pos [of "Suc m"] by simp
  show ?thesis
    unfolding payMonth_f64_single payDebt_f64_def
    using residue_pos [of m] assms(2) nz
    by (simp add: Let_def residueState_def isFirstActive_single rate6_computed_reduced f64_interest
        f64_owed f64_100 mn f64_principalPaid f64_newBalance mx pd)
qed

lemma f64_subnormal:
  assumes "y \<noteq> 0" and "\<bar>y\<bar> < 2 ^ 52"
  shows "f64 (y * 2 powi (- 1074)) = real_of_int (round_half_even y) * 2 powi (- 1074)"
proof -
  have u: "(0::real) < 2 powi (- 1074)" by simp
  have s: "(2::real) powi (- 1022) = 2 ^ 52 * 2 powi (- 1074)"
    using power_int_add [of "2::real" 52 "- 1074"] by simp
  have nz: "y * 2 powi (- 1074) \<noteq> 0" using assms(1) u by simp
  have "\<bar>y * 2 powi (- 1074)\<bar> = \<bar>y\<bar> * 2 powi (- 1074)" using u by (simp add: abs_mult)
  also have "\<dots> < 2 ^ 52 * 2 powi (- 1074)" using assms(2) u by (intro mult_strict_right_mono)
  finally have sm: "\<bar>y * 2 powi (- 1074)\<bar> < 2 powi (- 1022)" unfolding s .
  have q: "y * 2 powi (- 1074) / 2 powi (- 1074) = y" using u by simp
  show ?thesis unfolding f64_tiny [OF nz sm] q ..
qed

lemma f64_paid_absorb:
  assumes t0: "0 \<le> t" and t1: "t \<le> 1 / 2 ^ 53"
  shows "f64 (paid6 + t) = paid6"
proof -
  have s: "(paid6 + t) / 2 powi (6 - 52) = real_of_int 7072234711715676 + t * 2 ^ 46"
    by (simp add: paid6_def algebra_simps)
  have "t * 2 ^ 46 \<le> (1 / 2 ^ 53) * 2 ^ 46" using t1 by (intro mult_right_mono) simp_all
  then have t2: "t * 2 ^ 46 < 1 / 2" by simp
  have r: "round_half_even ((paid6 + t) / 2 powi (6 - 52)) = 7072234711715676"
    unfolding s using t0 t2 by (intro round_half_even_near) simp_all
  have lo: "2 powi 6 \<le> \<bar>paid6 + t\<bar>" using t0 by (simp add: paid6_def)
  have hi: "\<bar>paid6 + t\<bar> < 2 powi (6 + 1)" using t0 t1 by (simp add: paid6_def)
  have "f64 (paid6 + t)
      = real_of_int (round_half_even ((paid6 + t) / 2 powi (6 - 52))) * 2 powi (6 - 52)"
    using lo hi by (intro f64_normal) simp_all
  then show ?thesis unfolding r by (simp add: paid6_def)
qed

lemma month_22: "fst (payMonth_f64 0 [residueState 21]) = [clearedState]"
proof -
  define u :: real where "u = 2 powi (- 1074)"
  have u0: "0 < u" by (simp add: u_def)
  have r: "residue 21 = 8192 * u"
    using power_int_add [of "2::real" 13 "- 1074"] by (simp add: residue_def u_def)
  have i: "f64 (8192 * u * rate6) = 41 * u"
  proof -
    have "8192 * u * rate6 = (8192 * rate6) * 2 powi (- 1074)" by (simp add: u_def)
    also have "f64 \<dots> = real_of_int (round_half_even (8192 * rate6)) * 2 powi (- 1074)"
      by (intro f64_subnormal) (simp_all add: rate6_def)
    also have "round_half_even (8192 * rate6) = 41"
      by (simp add: rate6_def round_half_even_def)
    finally show ?thesis by (simp add: u_def)
  qed
  have o: "f64 (8192 * u + 41 * u) = 8233 * u"
  proof -
    have "8192 * u + 41 * u = 8233 * 2 powi (- 1074)" by (simp add: u_def)
    also have "f64 \<dots> = real_of_int (round_half_even 8233) * 2 powi (- 1074)"
      by (intro f64_subnormal) simp_all
    also have "round_half_even 8233 = 8233" using round_half_even_int [of 8233] by simp
    finally show ?thesis by (simp add: u_def)
  qed
  have p: "f64 (8233 * u - 41 * u) = 8192 * u"
  proof -
    have "8233 * u - 41 * u = 8192 * 2 powi (- 1074)" by (simp add: u_def)
    also have "f64 \<dots> = real_of_int (round_half_even 8192) * 2 powi (- 1074)"
      by (intro f64_subnormal) simp_all
    also have "round_half_even 8192 = 8192" using round_half_even_int [of 8192] by simp
    finally show ?thesis by (simp add: u_def)
  qed
  have o': "f64 (8233 * u) = 8233 * u" using o by simp
  have p': "f64 (8192 * u) = 8192 * u" using p by simp
  have mn: "min 100 (8233 * u) = 8233 * u"
  proof -
    have "u \<le> 2 powi (- 14)" unfolding u_def by (intro power_int_increasing) simp_all
    then have "8233 * u \<le> 8233 * (1 / 2 ^ 14)" by (simp add: power_int_minus field_simps)
    then show ?thesis by simp
  qed
  have pd: "f64 (paid6 + 8233 * u) = paid6"
  proof -
    have "u \<le> 2 powi (- 67)" unfolding u_def by (intro power_int_increasing) simp_all
    then have "8233 * u \<le> 2 ^ 14 * 2 powi (- 67)" using u0 by (intro mult_mono) simp_all
    also have "\<dots> = 1 / 2 ^ 53" using power_int_add [of "2::real" 14 "- 67"]
      by (simp add: power_int_minus field_simps)
    finally show ?thesis using u0 by (intro f64_paid_absorb) simp_all
  qed
  show ?thesis
    unfolding payMonth_f64_single payDebt_f64_def
    using u0
    by (simp add: Let_def residueState_def clearedState_def isFirstActive_single
        rate6_computed_reduced r i o o' p p' mn pd f64_100)
qed

lemma payoffLoop_f64_residue:
  "21 - m = n \<Longrightarrow> 2 \<le> m \<Longrightarrow> m \<le> 21 \<Longrightarrow>
   \<exists>plan'. payoffLoop_f64 0 [residueState m] m plan = ([clearedState], 22, plan')"
proof (induction n arbitrary: m plan)
  case 0
  then have m: "m = 21" by simp
  obtain ds fr rows where pm: "payMonth_f64 0 [residueState 21] = (ds, fr, rows)"
    by (cases "payMonth_f64 0 [residueState 21]") auto
  have ds: "ds = [clearedState]" using month_22 pm by simp
  have act: "list_ex (\<lambda>d. balance d > 0) [residueState 21]"
    using residue_pos [of 21] by (simp add: residueState_def)
  have "payoffLoop_f64 0 [residueState 21] 21 plan =
        payoffLoop_f64 0 [clearedState] 22 (plan @ [\<lparr>mp_month = 22, mp_payments = rows\<rparr>])"
    using act by (subst payoffLoop_f64.simps) (simp add: pm ds)
  also have "\<dots> = ([clearedState], 22, plan @ [\<lparr>mp_month = 22, mp_payments = rows\<rparr>])"
    by (subst payoffLoop_f64.simps) (simp add: clearedState_def)
  finally show ?case unfolding m by blast
next
  case (Suc n)
  then have m: "m \<le> 20" and n: "21 - Suc m = n" by simp_all
  obtain ds fr rows where pm: "payMonth_f64 0 [residueState m] = (ds, fr, rows)"
    by (cases "payMonth_f64 0 [residueState m]") auto
  have ds: "ds = [residueState (Suc m)]" using month_Suc [OF Suc.prems(2) m] pm by simp
  have act: "list_ex (\<lambda>d. balance d > 0) [residueState m]"
    using residue_pos [of m] by (simp add: residueState_def)
  have "payoffLoop_f64 0 [residueState m] m plan =
        payoffLoop_f64 0 [residueState (Suc m)] (Suc m)
          (plan @ [\<lparr>mp_month = m + 1, mp_payments = rows\<rparr>])"
    using act m by (subst payoffLoop_f64.simps) (simp add: pm ds)
  then show ?case using Suc.IH [OF n] Suc.prems(2) m by simp
qed

lemma payoffLoop_f64_smallLoan:
  "\<exists>plan'. payoffLoop_f64 0 [cloneDebt smallLoan] 0 [] = ([clearedState], 22, plan')"
proof -
  obtain ds1 fr1 rows1 where p1: "payMonth_f64 0 [cloneDebt smallLoan] = (ds1, fr1, rows1)"
    by (cases "payMonth_f64 0 [cloneDebt smallLoan]") auto
  have d1: "ds1 = [afterFirst]" using month_1 p1 by simp
  obtain ds2 fr2 rows2 where p2: "payMonth_f64 0 [afterFirst] = (ds2, fr2, rows2)"
    by (cases "payMonth_f64 0 [afterFirst]") auto
  have d2: "ds2 = [residueState 2]" using month_2 p2 by simp
  have a0: "list_ex (\<lambda>d. balance d > 0) [cloneDebt smallLoan]"
    by (simp add: cloneDebt_smallLoan)
  have a1: "list_ex (\<lambda>d. balance d > 0) [afterFirst]"
    using residue_pos [of 1] by (simp add: afterFirst_def)
  have "payoffLoop_f64 0 [cloneDebt smallLoan] 0 [] =
        payoffLoop_f64 0 [afterFirst] 1 [\<lparr>mp_month = 1, mp_payments = rows1\<rparr>]"
    using a0 by (subst payoffLoop_f64.simps) (simp add: p1 d1)
  also have "\<dots> = payoffLoop_f64 0 [residueState 2] 2
        [\<lparr>mp_month = 1, mp_payments = rows1\<rparr>, \<lparr>mp_month = 2, mp_payments = rows2\<rparr>]"
    using a1 by (subst payoffLoop_f64.simps) (simp add: p2 d2 numeral_2_eq_2)
  finally show ?thesis
    using payoffLoop_f64_residue [of 2 19] by simp
qed

lemma minStep_f64_first:
  "minStep_f64 (toMinDebt smallLoan)
     = \<lparr>md_balance = residue 1, md_emi = 100, md_rate = 6, md_paid = 100\<rparr>"
proof -
  have mn: "min 100 (201 / 2) = (100::real)" by simp
  show ?thesis
    unfolding residue_1
    by (simp add: minStep_f64_def toMinDebt_def smallLoan_def Let_def rate6_computed_reduced
        f64_first_interest f64_halves f64_100 mn)
qed

lemma minStep_f64_second:
  "minStep_f64 \<lparr>md_balance = residue 1, md_emi = 100, md_rate = 6, md_paid = 100\<rparr>
     = \<lparr>md_balance = 0, md_emi = 100, md_rate = 6, md_paid = paid6\<rparr>"
proof -
  have mn: "min 100 (residue (Suc 0) * grown6) = residue (Suc 0) * grown6"
    using residue_owed_small [of 1] by simp
  have pd: "f64 (100 + residue (Suc 0) * grown6) = paid6" using f64_paid_first by simp
  show ?thesis
    using residue_pos [of "Suc 0"]
    by (simp add: minStep_f64_def Let_def rate6_computed_reduced f64_interest f64_owed mn pd)
qed

lemma f64_paid6: "f64 paid6 = paid6"
  using f64_paid_absorb [of 0] by simp

lemma simulateMinimumPayments_f64_smallLoan:
  "simulateMinimumPayments_f64 [smallLoan] = \<lparr>months = 2, totalPaid = paid6\<rparr>"
proof -
  let ?s1 = "\<lparr>md_balance = residue 1, md_emi = 100, md_rate = 6, md_paid = 100\<rparr>"
  let ?s2 = "\<lparr>md_balance = 0, md_emi = 100, md_rate = 6, md_paid = paid6\<rparr>"
  have "minLoop_f64 [toMinDebt smallLoan] 0 = minLoop_f64 [?s1] 1"
    by (subst minLoop_f64.simps) (simp add: minStep_f64_first, simp add: toMinDebt_def smallLoan_def)
  also have "\<dots> = minLoop_f64 [?s2] 2"
    using residue_pos [of 1]
    by (subst minLoop_f64.simps)
      (simp add: minStep_f64_second [unfolded One_nat_def] numeral_2_eq_2)
  also have "\<dots> = ([?s2], 2)"
    by (subst minLoop_f64.simps) simp
  finally show ?thesis
    by (simp add: simulateMinimumPayments_f64_def f64_paid6)
qed

text \<open>
  C7. In double precision, one loan of 100 at 6 percent with installment 100 and no extra
  payment: the baseline clears it in 2 months, while the plan takes 22, because
  \<open>balance - (payment - interest)\<close> leaves \<open>2^-54\<close> where the baseline's
  \<open>balance + interest - payment\<close> leaves 0, and each later month leaves a residue again
  until the subnormal numbers end it. The summary reports \<open>monthsSaved = -20\<close>.
\<close>

theorem createPayoffPlan_f64_residue_months:
  "map_option pp_summary (createPayoffPlan_f64 [smallLoan] 0 ''avalanche'') =
     Some \<lparr>totalMonths = 22, sm_totalPaid = 101, monthsSaved = - 20, interestSaved = 0\<rparr>
   \<and> months (simulateMinimumPayments_f64 [smallLoan]) = 2"
proof -
  have a: "analyzeDebts [smallLoan] = Some [cloneDebt smallLoan]"
    by (simp add: analyzeDebts_def)
  have s: "sortByMethod ''avalanche'' [cloneDebt smallLoan] = [cloneDebt smallLoan]"
    by (simp add: sortByMethod_def)
  obtain plan' where p: "payoffLoop_f64 0 [cloneDebt smallLoan] 0 [] = ([clearedState], 22, plan')"
    using payoffLoop_f64_smallLoan by blast
  have r: "Math_round paid6 = 101" by (simp add: Math_round_def paid6_def)
  show ?thesis
    unfolding createPayoffPlan_f64_def a option.case s p
    by (simp add: simulateMinimumPayments_f64_smallLoan Let_def clearedState_def f64_paid6 r)
qed

text \<open>Over exact arithmetic the same loan is cleared in 2 months by both.\<close>

lemma createPayoffPlan_exact_smallLoan:
  "map_option pp_summary (createPayoffPlan [smallLoan] 0 ''avalanche'') =
     Some \<lparr>totalMonths = 2, sm_totalPaid = 101, monthsSaved = 0, interestSaved = 0\<rparr>"
  by code_simp

lemma f64_thousands:
  "f64 1000 = 1000" "f64 2000 = 2000" "f64 3000 = 3000" "f64 4000 = 4000"
proof -
  show "f64 1000 = 1000" by (subst f64_normal [of 9]) (simp_all add: round_half_even_def)
  show "f64 2000 = 2000" by (subst f64_normal [of 10]) (simp_all add: round_half_even_def)
  show "f64 3000 = 3000" by (subst f64_normal [of 11]) (simp_all add: round_half_even_def)
  show "f64 4000 = 4000" by (subst f64_normal [of 11]) (simp_all add: round_half_even_def)
qed

text \<open>
  The two interest-free loans A and B get the same plan in double precision as over exact
  arithmetic: whole amounts at a zero rate are computed without rounding.
\<close>

lemma createPayoffPlan_f64_loanAB:
  "map_option pp_plan (createPayoffPlan_f64 [loanA, loanB] 0 ''avalanche'') =
  Some [
    \<lparr>mp_month = 1, mp_payments = [
       \<lparr>pr_name = ''A'', pr_payment = 1000, pr_interest = 0, pr_principal = 1000, pr_balance = 0\<rparr>,
       \<lparr>pr_name = ''B'', pr_payment = 2000, pr_interest = 0, pr_principal = 2000, pr_balance = 2000\<rparr>]\<rparr>,
    \<lparr>mp_month = 2, mp_payments = [
       \<lparr>pr_name = ''B'', pr_payment = 1000, pr_interest = 0, pr_principal = 1000, pr_balance = 1000\<rparr>]\<rparr>,
    \<lparr>mp_month = 3, mp_payments = [
       \<lparr>pr_name = ''B'', pr_payment = 1000, pr_interest = 0, pr_principal = 1000, pr_balance = 0\<rparr>]\<rparr>]"
  by (simp add: createPayoffPlan_f64_def analyzeDebts_def sortByMethod_def cloneDebt_def
      loanA_def loanB_def calculatePriority_def payoffLoop_f64.simps payMonth_f64_def
      payDebt_f64_def isFirstActive_def Let_def f64_thousands upt_rec
      simulateMinimumPayments_f64_def)

end
